theory Spec2Isabelle
  imports Complex_Main
begin

section \<open>The values of the language\<close>

text \<open>
  The server is JavaScript. A string is a list of code units; the characters of this
  theory are the code units below 256, so \<open>CHR 0xE1\<close> is the letter a with an acute
  accent of the server's Spanish messages. A number is an IEEE double: not-a-number, the
  two infinities, or a finite rational that a double represents. The two zeros are one
  value here, since no comparison of the program tells them apart.

  The decoded claims of a token and the objects of a response are association lists of
  primitive values, one entry for each property. Reading a property that is absent gives
  \<open>undefined\<close>.
\<close>

datatype jsnum = NaN | PosInfinity | NegInfinity | Finite rat

datatype jsval = JUndefined | JNull | JBool bool | JNum jsnum | JStr string

type_synonym jsobject = "(string \<times> jsval) list"

definition js_prop :: "jsobject \<Rightarrow> string \<Rightarrow> jsval" where
  "js_prop obj k = (case map_of obj k of None \<Rightarrow> JUndefined | Some v \<Rightarrow> v)"

definition js_number :: "nat \<Rightarrow> jsval" where
  "js_number n = JNum (Finite (of_nat n))"

section \<open>Responses\<close>

datatype json_data = NoData | DataId nat | DataLogin string jsobject

record response =
  http_status :: nat
  success :: bool
  message :: "string option"
  payload :: json_data

definition json_message :: "nat \<Rightarrow> bool \<Rightarrow> string \<Rightarrow> response" where
  "json_message st ok msg =
     \<lparr>http_status = st, success = ok, message = Some msg, payload = NoData\<rparr>"

definition json_with_data :: "nat \<Rightarrow> string \<Rightarrow> json_data \<Rightarrow> response" where
  "json_with_data st msg d =
     \<lparr>http_status = st, success = True, message = Some msg, payload = d\<rparr>"

definition msg_token_no_proporcionado :: string where
  "msg_token_no_proporcionado = ''Token no proporcionado''"

definition msg_token_invalido :: string where
  "msg_token_invalido = ''Token inv'' @ [CHR 0xE1] @ ''lido''"

definition msg_acceso_denegado :: string where
  "msg_acceso_denegado = ''Acceso denegado''"

definition msg_credenciales_invalidas :: string where
  "msg_credenciales_invalidas = ''Credenciales inv'' @ [CHR 0xE1] @ ''lidas''"

definition msg_cuenta_inactiva :: string where
  "msg_cuenta_inactiva = ''Cuenta inactiva''"

definition msg_login_exitoso :: string where
  "msg_login_exitoso = ''Login exitoso''"

definition msg_error_interno :: string where
  "msg_error_interno = ''Error interno del servidor''"

definition msg_email_registrado :: string where
  "msg_email_registrado = ''El email ya est'' @ [CHR 0xE1] @ '' registrado''"

definition msg_turista_registrado :: string where
  "msg_turista_registrado = ''Turista registrado exitosamente''"

definition msg_sin_permisos :: string where
  "msg_sin_permisos = ''Sin permisos para este negocio''"

definition msg_negocio_actualizado :: string where
  "msg_negocio_actualizado = ''Negocio actualizado exitosamente''"

text \<open>The error kinds of the specification, as the responses the server sends for them.\<close>

definition unauthenticated_no_token :: response where
  "unauthenticated_no_token = json_message 401 False msg_token_no_proporcionado"

definition unauthenticated_invalid_token :: response where
  "unauthenticated_invalid_token = json_message 401 False msg_token_invalido"

definition forbidden_role :: response where
  "forbidden_role = json_message 403 False msg_acceso_denegado"

definition forbidden_ownership :: response where
  "forbidden_ownership = json_message 403 False msg_sin_permisos"

definition invalid_credentials :: response where
  "invalid_credentials = json_message 401 False msg_credenciales_invalidas"

definition inactive_account :: response where
  "inactive_account = json_message 401 False msg_cuenta_inactiva"

definition duplicate_identifier :: response where
  "duplicate_identifier = json_message 400 False msg_email_registrado"

definition internal_error :: response where
  "internal_error = json_message 500 False msg_error_interno"

section \<open>The libraries the server calls\<close>

text \<open>
  \<open>bcryptjs\<close> and \<open>jsonwebtoken\<close> are dependencies, not code of the repository:
  the handlers take them as a parameter. \<open>bcrypt_hash\<close> gets the salt the library draws
  as a third argument. \<open>jwt_sign\<close> and \<open>jwt_verify\<close> read the clock, in seconds.
  A call of \<open>jwt.verify\<close> that throws is \<open>Inl\<close> of the kind of its failure.
\<close>

datatype codec_error = InvalidSignature | Expired | Malformed

record library =
  bcrypt_hash :: "string \<Rightarrow> nat \<Rightarrow> string \<Rightarrow> string"
  bcrypt_compare :: "string \<Rightarrow> string \<Rightarrow> bool"
  jwt_sign :: "jsobject \<Rightarrow> string \<Rightarrow> string \<Rightarrow> nat \<Rightarrow> string"
  jwt_verify :: "string \<Rightarrow> string \<Rightarrow> nat \<Rightarrow> codec_error + jsobject"

text \<open>\<open>JWT_SECRET = process.env.JWT_SECRET || 'tu_clave_secreta_muy_segura'\<close>\<close>

definition JWT_SECRET :: "string option \<Rightarrow> string" where
  "JWT_SECRET env_secret =
     (case env_secret of
        None \<Rightarrow> ''tu_clave_secreta_muy_segura''
      | Some s \<Rightarrow> if s = [] then ''tu_clave_secreta_muy_segura'' else s)"

section \<open>The access guard\<close>

text \<open>\<open>String.prototype.split\<close> with a separator of one character.\<close>

fun js_split :: "char \<Rightarrow> string \<Rightarrow> string list" where
  "js_split sep [] = [[]]"
| "js_split sep (c # cs) =
     (if c = sep then [] # js_split sep cs
      else (case js_split sep cs of
              [] \<Rightarrow> [[c]]
            | w # ws \<Rightarrow> (c # w) # ws))"

text \<open>
  \<open>req.headers.authorization?.split(' ')[1]\<close>: \<open>None\<close> is \<open>undefined\<close>, from a
  missing header or a missing second element.
\<close>

definition token_of_header :: "string option \<Rightarrow> string option" where
  "token_of_header authorization =
     (case authorization of
        None \<Rightarrow> None
      | Some v \<Rightarrow>
          (case js_split (CHR '' '') v of
             _ # t # _ \<Rightarrow> Some t
           | _ \<Rightarrow> None))"

text \<open>
  The other reading of the header, for comparison: the token is everything after the first
  space of the value.
\<close>

definition after_first_space :: "string \<Rightarrow> string" where
  "after_first_space v = tl (dropWhile (\<lambda>c. c \<noteq> CHR '' '') v)"

text \<open>\<open>roles.includes(decoded.tipo)\<close>: the roles are strings, compared by SameValueZero.\<close>

definition js_includes :: "string list \<Rightarrow> jsval \<Rightarrow> bool" where
  "js_includes roles v = (v \<in> set (map JStr roles))"

text \<open>
  The middleware either sends a response or calls \<open>next()\<close> with the decoded claims
  bound to \<open>req.user\<close>. A payload that is a bare string has none of the properties the
  program reads, like the empty object.
\<close>

datatype guard_outcome = Respond response | Next jsobject

definition verifyToken ::
  "library \<Rightarrow> string \<Rightarrow> nat \<Rightarrow> string list \<Rightarrow> string option \<Rightarrow> guard_outcome" where
  "verifyToken lib secret now roles authorization =
     (case token_of_header authorization of
        None \<Rightarrow> Respond unauthenticated_no_token
      | Some token \<Rightarrow>
          if token = [] then Respond unauthenticated_no_token
          else
            (case jwt_verify lib token secret now of
               Inl err \<Rightarrow> Respond unauthenticated_invalid_token
             | Inr decoded \<Rightarrow>
                 if length roles > 0 \<and> \<not> js_includes roles (js_prop decoded ''tipo'')
                 then Respond forbidden_role
                 else Next decoded))"

section \<open>The store\<close>

text \<open>
  The tables of the MySQL database, with the columns the handlers read and write. The
  schema is not among the sources of the repository. \<open>sql_eq\<close> is the equality of the
  columns' collation, which decides \<open>WHERE email = ?\<close>; \<open>db_now\<close> is the clock behind
  \<open>NOW()\<close>. Every \<open>pool.execute\<close> may reject (the store is unreachable, a
  constraint fails, the driver refuses the call): \<open>faults\<close> is the schedule of the
  calls to come, \<open>True\<close> for a call that rejects, and a call past the end of the
  schedule succeeds.
\<close>

record turista =
  tu_id :: nat
  tu_nombre :: string
  tu_apellido :: string
  tu_email :: string
  tu_password_hash :: string
  tu_estado :: string
  tu_telefono :: "string option"
  tu_pais_origen :: "string option"
  tu_ciudad_origen :: "string option"
  tu_ultima_conexion :: "nat option"

record negocio =
  ne_id :: nat
  ne_nombre :: string

record administrador_negocio =
  an_id :: nat
  an_negocio_id :: nat
  an_nombre :: string
  an_apellido :: string
  an_email :: string
  an_password_hash :: string
  an_estado :: string
  an_permisos :: jsval
  an_ultima_conexion :: "nat option"

record super_administrador =
  sa_id :: nat
  sa_usuario :: string
  sa_nombre :: string
  sa_email :: string
  sa_password_hash :: string
  sa_nivel_acceso :: jsval
  sa_permisos :: jsval
  sa_estado :: string
  sa_ultima_conexion :: "nat option"

record database =
  turistas :: "turista list"
  negocios :: "negocio list"
  administradores_negocios :: "administrador_negocio list"
  super_administradores :: "super_administrador list"
  turistas_auto_increment :: nat
  sql_eq :: "string \<Rightarrow> string \<Rightarrow> bool"
  db_now :: nat
  faults :: "bool list"

datatype js_exception = StoreFault | BindParameterUndefined

definition pool_execute ::
  "(database \<Rightarrow> 'a \<times> database) \<Rightarrow> database \<Rightarrow> (js_exception + 'a) \<times> database" where
  "pool_execute statement db =
     (case faults db of
        [] \<Rightarrow> (case statement db of (r, db') \<Rightarrow> (Inr r, db'))
      | f # fs \<Rightarrow>
          if f then (Inl StoreFault, db\<lparr>faults := fs\<rparr>)
          else (case statement (db\<lparr>faults := fs\<rparr>) of (r, db') \<Rightarrow> (Inr r, db')))"

text \<open>
  \<open>rejects i db\<close>: the call of \<open>pool.execute\<close> that comes \<open>i\<close> calls from now
  rejects. \<open>advance db\<close> is the store after one call was scheduled.
\<close>

definition rejects :: "nat \<Rightarrow> database \<Rightarrow> bool" where
  "rejects i db = (i < length (faults db) \<and> faults db ! i)"

definition advance :: "database \<Rightarrow> database" where
  "advance db = db\<lparr>faults := tl (faults db)\<rparr>"

text \<open>
  A field of a request body that no validator requires: left out of the request, in which
  case the handler reads \<open>undefined\<close>, or sent as \<open>null\<close>, or sent as a string.
  (A JSON body can also carry a number, a boolean, an array or an object there; the model
  leaves those out.)
\<close>

datatype body_field = FieldUndefined | FieldNull | FieldString string

text \<open>
  \<open>pool.execute\<close> with bind parameters that come from such fields. The driver
  (\<open>mysql2\<close>) takes a connection, and then refuses a list of bind parameters that
  contains \<open>undefined\<close>: it throws before the statement reaches the store ("Bind
  parameters must not contain undefined. To pass SQL NULL specify JS null"). The other
  calls of the handlers modelled here bind validated strings and ids of rows, which are
  never \<open>undefined\<close>.
\<close>

definition pool_execute_bound ::
  "body_field list \<Rightarrow> (database \<Rightarrow> 'a \<times> database) \<Rightarrow> database
     \<Rightarrow> (js_exception + 'a) \<times> database" where
  "pool_execute_bound params statement db =
     (case faults db of
        [] \<Rightarrow>
          if FieldUndefined \<in> set params then (Inl BindParameterUndefined, db)
          else (case statement db of (r, db') \<Rightarrow> (Inr r, db'))
      | f # fs \<Rightarrow>
          if f then (Inl StoreFault, db\<lparr>faults := fs\<rparr>)
          else if FieldUndefined \<in> set params
          then (Inl BindParameterUndefined, db\<lparr>faults := fs\<rparr>)
          else (case statement (db\<lparr>faults := fs\<rparr>) of (r, db') \<Rightarrow> (Inr r, db')))"

text \<open>The value a bind parameter puts into a nullable text column.\<close>

definition sql_value :: "body_field \<Rightarrow> string option" where
  "sql_value v = (case v of FieldString x \<Rightarrow> Some x | _ \<Rightarrow> None)"

text \<open>\<open>SELECT ... FROM turistas WHERE email = ?\<close>\<close>

definition select_turistas_by_email :: "string \<Rightarrow> database \<Rightarrow> turista list \<times> database" where
  "select_turistas_by_email email db =
     (filter (\<lambda>u. sql_eq db (tu_email u) email) (turistas db), db)"

text \<open>\<open>UPDATE turistas SET ultima_conexion = NOW() WHERE id = ?\<close>\<close>

definition update_turista_ultima_conexion :: "nat \<Rightarrow> database \<Rightarrow> unit \<times> database" where
  "update_turista_ultima_conexion uid db =
     ((), db\<lparr>turistas :=
            map (\<lambda>u. if tu_id u = uid then u\<lparr>tu_ultima_conexion := Some (db_now db)\<rparr> else u)
              (turistas db)\<rparr>)"

text \<open>
  \<open>SELECT an.*, n.nombre as nombre_negocio FROM administradores_negocios an
  INNER JOIN negocios n ON an.negocio_id = n.id WHERE an.email = ?\<close>
\<close>

definition select_admins_by_email ::
  "string \<Rightarrow> database \<Rightarrow> (administrador_negocio \<times> negocio) list \<times> database" where
  "select_admins_by_email email db =
     (filter (\<lambda>(an, n). an_negocio_id an = ne_id n \<and> sql_eq db (an_email an) email)
        (List.product (administradores_negocios db) (negocios db)), db)"

definition update_admin_ultima_conexion :: "nat \<Rightarrow> database \<Rightarrow> unit \<times> database" where
  "update_admin_ultima_conexion uid db =
     ((), db\<lparr>administradores_negocios :=
            map (\<lambda>u. if an_id u = uid then u\<lparr>an_ultima_conexion := Some (db_now db)\<rparr> else u)
              (administradores_negocios db)\<rparr>)"

text \<open>\<open>SELECT ... FROM super_administradores WHERE usuario = ? AND estado = "activo"\<close>\<close>

definition select_supers_by_usuario ::
  "string \<Rightarrow> database \<Rightarrow> super_administrador list \<times> database" where
  "select_supers_by_usuario usuario db =
     (filter (\<lambda>u. sql_eq db (sa_usuario u) usuario \<and> sql_eq db (sa_estado u) ''activo'')
        (super_administradores db), db)"

definition update_super_ultima_conexion :: "nat \<Rightarrow> database \<Rightarrow> unit \<times> database" where
  "update_super_ultima_conexion uid db =
     ((), db\<lparr>super_administradores :=
            map (\<lambda>u. if sa_id u = uid then u\<lparr>sa_ultima_conexion := Some (db_now db)\<rparr> else u)
              (super_administradores db)\<rparr>)"

text \<open>
  Modelled from the spec: the defaults of the table \<open>turistas\<close>, whose schema is not
  among the sources. The \<open>INSERT\<close> of the registration names neither \<open>id\<close> nor
  \<open>estado\<close>: the specification says a new principal gets a generated id and the status
  active by default.
\<close>

definition turistas_estado_default :: string where
  "turistas_estado_default = ''activo''"

text \<open>
  \<open>INSERT INTO turistas (nombre, apellido, email, password_hash, telefono, pais_origen,
  ciudad_origen) VALUES (?, ?, ?, ?, ?, ?, ?)\<close>; the result is \<open>insertId\<close>.
\<close>

definition insert_turista ::
  "string \<Rightarrow> string \<Rightarrow> string \<Rightarrow> string \<Rightarrow> string option \<Rightarrow> string option \<Rightarrow> string option
     \<Rightarrow> database \<Rightarrow> nat \<times> database" where
  "insert_turista nombre apellido email password_hash telefono pais_origen ciudad_origen db =
     (let insertId = turistas_auto_increment db;
          row = \<lparr>tu_id = insertId, tu_nombre = nombre, tu_apellido = apellido,
                 tu_email = email, tu_password_hash = password_hash,
                 tu_estado = turistas_estado_default, tu_telefono = telefono,
                 tu_pais_origen = pais_origen, tu_ciudad_origen = ciudad_origen,
                 tu_ultima_conexion = None\<rparr>
      in (insertId, db\<lparr>turistas := turistas db @ [row],
                        turistas_auto_increment := Suc insertId\<rparr>))"

section \<open>The authenticator\<close>

text \<open>
  The handlers of the three login routes and of the registration, after the validators of
  the route have passed the request on. Each runs inside \<open>try\<close>: a rejected
  \<open>pool.execute\<close> goes to \<open>catch\<close>, which answers 500. \<open>now\<close> is the clock
  \<open>jwt.sign\<close> reads.
\<close>

definition turista_login ::
  "library \<Rightarrow> string \<Rightarrow> nat \<Rightarrow> string \<Rightarrow> string \<Rightarrow> database \<Rightarrow> response \<times> database" where
  "turista_login lib secret now email password db =
     (case pool_execute (select_turistas_by_email email) db of
        (Inl err, db1) \<Rightarrow> (internal_error, db1)
      | (Inr users, db1) \<Rightarrow>
          (case users of
             [] \<Rightarrow> (invalid_credentials, db1)
           | user # _ \<Rightarrow>
               if tu_estado user \<noteq> ''activo'' then (inactive_account, db1)
               else if \<not> bcrypt_compare lib password (tu_password_hash user)
               then (invalid_credentials, db1)
               else
                 (let token = jwt_sign lib
                        [(''id'', js_number (tu_id user)), (''email'', JStr (tu_email user)),
                         (''tipo'', JStr ''turista'')]
                        secret ''24h'' now
                  in (case pool_execute (update_turista_ultima_conexion (tu_id user)) db1 of
                        (Inl err, db2) \<Rightarrow> (internal_error, db2)
                      | (Inr _, db2) \<Rightarrow>
                          (json_with_data 200 msg_login_exitoso
                             (DataLogin token
                                [(''id'', js_number (tu_id user)),
                                 (''nombre'', JStr (tu_nombre user)),
                                 (''apellido'', JStr (tu_apellido user)),
                                 (''email'', JStr (tu_email user))]), db2)))))"

definition admin_login ::
  "library \<Rightarrow> string \<Rightarrow> nat \<Rightarrow> string \<Rightarrow> string \<Rightarrow> database \<Rightarrow> response \<times> database" where
  "admin_login lib secret now email password db =
     (case pool_execute (select_admins_by_email email) db of
        (Inl err, db1) \<Rightarrow> (internal_error, db1)
      | (Inr users, db1) \<Rightarrow>
          (case users of
             [] \<Rightarrow> (invalid_credentials, db1)
           | (user, n) # _ \<Rightarrow>
               if an_estado user \<noteq> ''activo'' then (inactive_account, db1)
               else if \<not> bcrypt_compare lib password (an_password_hash user)
               then (invalid_credentials, db1)
               else
                 (let token = jwt_sign lib
                        [(''id'', js_number (an_id user)), (''email'', JStr (an_email user)),
                         (''negocio_id'', js_number (an_negocio_id user)),
                         (''tipo'', JStr ''admin_negocio'')]
                        secret ''24h'' now
                  in (case pool_execute (update_admin_ultima_conexion (an_id user)) db1 of
                        (Inl err, db2) \<Rightarrow> (internal_error, db2)
                      | (Inr _, db2) \<Rightarrow>
                          (json_with_data 200 msg_login_exitoso
                             (DataLogin token
                                [(''id'', js_number (an_id user)),
                                 (''nombre'', JStr (an_nombre user)),
                                 (''apellido'', JStr (an_apellido user)),
                                 (''email'', JStr (an_email user)),
                                 (''negocio_id'', js_number (an_negocio_id user)),
                                 (''nombre_negocio'', JStr (ne_nombre n)),
                                 (''permisos'', an_permisos user)]), db2)))))"

definition super_admin_login ::
  "library \<Rightarrow> string \<Rightarrow> nat \<Rightarrow> string \<Rightarrow> string \<Rightarrow> database \<Rightarrow> response \<times> database" where
  "super_admin_login lib secret now usuario password db =
     (case pool_execute (select_supers_by_usuario usuario) db of
        (Inl err, db1) \<Rightarrow> (internal_error, db1)
      | (Inr users, db1) \<Rightarrow>
          (case users of
             [] \<Rightarrow> (invalid_credentials, db1)
           | user # _ \<Rightarrow>
               if \<not> bcrypt_compare lib password (sa_password_hash user)
               then (invalid_credentials, db1)
               else
                 (let token = jwt_sign lib
                        [(''id'', js_number (sa_id user)), (''usuario'', JStr (sa_usuario user)),
                         (''tipo'', JStr ''super_admin''),
                         (''nivel_acceso'', sa_nivel_acceso user)]
                        secret ''24h'' now
                  in (case pool_execute (update_super_ultima_conexion (sa_id user)) db1 of
                        (Inl err, db2) \<Rightarrow> (internal_error, db2)
                      | (Inr _, db2) \<Rightarrow>
                          (json_with_data 200 msg_login_exitoso
                             (DataLogin token
                                [(''id'', js_number (sa_id user)),
                                 (''usuario'', JStr (sa_usuario user)),
                                 (''nombre'', JStr (sa_nombre user)),
                                 (''email'', JStr (sa_email user)),
                                 (''nivel_acceso'', sa_nivel_acceso user),
                                 (''permisos'', sa_permisos user)]), db2)))))"

text \<open>
  The registration of a tourist. The validators of the route require \<open>nombre\<close>,
  \<open>apellido\<close>, \<open>email\<close> and \<open>password\<close>; \<open>telefono\<close>,
  \<open>pais_origen\<close> and \<open>ciudad_origen\<close> have no validator, and the handler hands
  them to the \<open>INSERT\<close> as it read them from the body, \<open>undefined\<close> when the
  request left them out. The duplicate check is \<open>SELECT id FROM turistas WHERE
  email = ?\<close>, of which the handler reads the number of rows only.
\<close>

record registro =
  rg_nombre :: string
  rg_apellido :: string
  rg_email :: string
  rg_password :: string
  rg_telefono :: body_field
  rg_pais_origen :: body_field
  rg_ciudad_origen :: body_field

definition turista_register ::
  "library \<Rightarrow> string \<Rightarrow> registro \<Rightarrow> database \<Rightarrow> response \<times> database" where
  "turista_register lib salt body db =
     (case pool_execute (select_turistas_by_email (rg_email body)) db of
        (Inl err, db1) \<Rightarrow> (internal_error, db1)
      | (Inr existingUsers, db1) \<Rightarrow>
          if length existingUsers > 0 then (duplicate_identifier, db1)
          else
            (let hashedPassword = bcrypt_hash lib (rg_password body) 10 salt
             in (case pool_execute_bound
                        [FieldString (rg_nombre body), FieldString (rg_apellido body),
                         FieldString (rg_email body), FieldString hashedPassword,
                         rg_telefono body, rg_pais_origen body, rg_ciudad_origen body]
                        (insert_turista (rg_nombre body) (rg_apellido body) (rg_email body)
                           hashedPassword (sql_value (rg_telefono body))
                           (sql_value (rg_pais_origen body))
                           (sql_value (rg_ciudad_origen body))) db1 of
                   (Inl err, db2) \<Rightarrow> (internal_error, db2)
                 | (Inr insertId, db2) \<Rightarrow>
                     (json_with_data 201 msg_turista_registrado (DataId insertId), db2))))"

section \<open>The token codec\<close>

text \<open>
  Modelled from the spec: the Token Codec, which the server takes from the library
  \<open>jsonwebtoken\<close> (\<open>jwt.sign\<close>, \<open>jwt.verify\<close>), a dependency that is not among
  the sources. The specification says: \<open>issue\<close> serializes the claim set, signs it with
  a symmetric key and embeds an expiry of the issuance time plus 24 hours; \<open>verify\<close>
  fails with \<open>Malformed\<close> if the token cannot be parsed, with \<open>InvalidSignature\<close> if
  the signature does not match and with \<open>Expired\<close> if the current time has reached the
  embedded expiry, and returns the claims otherwise. A signature is symbolic: a signed
  token names the key it was signed with. Times are seconds. The source fixes the lifetime
  with \<open>expiresIn: '24h'\<close>.
\<close>

datatype token = Signed jsobject nat nat string | Unparseable

definition token_lifetime :: nat where
  "token_lifetime = 24 * 60 * 60"

definition token_issue :: "jsobject \<Rightarrow> string \<Rightarrow> nat \<Rightarrow> token" where
  "token_issue claims secret_key issued_at =
     Signed claims issued_at (issued_at + token_lifetime) secret_key"

definition token_verify :: "token \<Rightarrow> string \<Rightarrow> nat \<Rightarrow> codec_error + jsobject" where
  "token_verify tok secret_key now =
     (case tok of
        Unparseable \<Rightarrow> Inl Malformed
      | Signed claims issued_at expiry signing_key \<Rightarrow>
          if signing_key \<noteq> secret_key then Inl InvalidSignature
          else if now \<ge> expiry then Inl Expired
          else Inr claims)"

section \<open>Loose equality\<close>

text \<open>
  \<open>x == y\<close> and \<open>x != y\<close> on primitive values, as the language defines them
  (IsLooselyEqual): values of one type compare strictly, \<open>null\<close> and \<open>undefined\<close>
  equal each other, a boolean is converted to a number, and a string compared with a
  number is converted by StringToNumber. Not-a-number equals nothing.
\<close>

definition num_eq :: "jsnum \<Rightarrow> jsnum \<Rightarrow> bool" where
  "num_eq x y = (x \<noteq> NaN \<and> y \<noteq> NaN \<and> x = y)"

definition strict_eq :: "jsval \<Rightarrow> jsval \<Rightarrow> bool" where
  "strict_eq a b = (case (a, b) of (JNum x, JNum y) \<Rightarrow> num_eq x y | _ \<Rightarrow> a = b)"

subsection \<open>The number a pair of naturals rounds to\<close>

text \<open>
  The double nearest to \<open>p / q\<close>, ties to the even significand: 53 bits of significand,
  exponents from -1022 (below it the spacing stays \<open>2 ^ -1074\<close>), and \<open>None\<close> for a
  result of \<open>2 ^ 1024\<close> or more, which is an infinity.
\<close>

fun bit_length :: "nat \<Rightarrow> nat" where
  "bit_length n = (if n = 0 then 0 else Suc (bit_length (n div 2)))"

declare bit_length.simps [simp del]

definition floor_log2 :: "nat \<Rightarrow> nat \<Rightarrow> int" where
  "floor_log2 p q =
     (let e = int (bit_length p) - int (bit_length q)
      in if (0 \<le> e \<and> q * 2 ^ nat e \<le> p) \<or> (e < 0 \<and> q \<le> p * 2 ^ nat (- e))
         then e else e - 1)"

definition round_half_even :: "nat \<Rightarrow> nat \<Rightarrow> nat" where
  "round_half_even a b =
     (let n = a div b; r = a mod b
      in if 2 * r < b then n
         else if b < 2 * r then n + 1
         else if even n then n else n + 1)"

definition round_double :: "nat \<Rightarrow> nat \<Rightarrow> rat option" where
  "round_double p q =
     (if p = 0 then Some 0
      else
        (let k = max (floor_log2 p q) (- 1022) - 52;
             v = (if 0 \<le> k
                  then of_nat (round_half_even p (q * 2 ^ nat k) * 2 ^ nat k)
                  else of_nat (round_half_even (p * 2 ^ nat (- k)) q) / of_nat (2 ^ nat (- k)))
         in if (2::rat) ^ 1024 \<le> v then None else Some v))"

definition number_value :: "bool \<Rightarrow> nat \<Rightarrow> nat \<Rightarrow> jsnum" where
  "number_value negative p q =
     (case round_double p q of
        None \<Rightarrow> if negative then NegInfinity else PosInfinity
      | Some v \<Rightarrow> Finite (if negative then - v else v))"

subsection \<open>StringToNumber\<close>

text \<open>
  The grammar StringNumericLiteral: white space around the literal is dropped, the empty
  string is 0, a decimal literal may have a sign, a fraction and an exponent, a
  hexadecimal, octal or binary literal has no sign, and anything else is not-a-number.
\<close>

definition is_white_space :: "char \<Rightarrow> bool" where
  "is_white_space c =
     (c \<in> {CHR 0x09, CHR 0x0A, CHR 0x0B, CHR 0x0C, CHR 0x0D, CHR 0x20, CHR 0xA0})"

definition trim :: "string \<Rightarrow> string" where
  "trim s = rev (dropWhile is_white_space (rev (dropWhile is_white_space s)))"

definition is_digit :: "char \<Rightarrow> bool" where
  "is_digit c = (48 \<le> (of_char c :: nat) \<and> (of_char c :: nat) \<le> 57)"

definition is_hex_digit :: "char \<Rightarrow> bool" where
  "is_hex_digit c =
     (is_digit c \<or> (97 \<le> (of_char c :: nat) \<and> (of_char c :: nat) \<le> 102)
        \<or> (65 \<le> (of_char c :: nat) \<and> (of_char c :: nat) \<le> 70))"

definition is_octal_digit :: "char \<Rightarrow> bool" where
  "is_octal_digit c = (48 \<le> (of_char c :: nat) \<and> (of_char c :: nat) \<le> 55)"

definition is_binary_digit :: "char \<Rightarrow> bool" where
  "is_binary_digit c = (c = CHR ''0'' \<or> c = CHR ''1'')"

definition digit_value :: "char \<Rightarrow> nat" where
  "digit_value c =
     (if is_digit c then of_char c - 48
      else if 97 \<le> (of_char c :: nat) then of_char c - 87
      else of_char c - 55)"

definition digits_value :: "nat \<Rightarrow> string \<Rightarrow> nat" where
  "digits_value base ds = foldl (\<lambda>a c. a * base + digit_value c) 0 ds"

definition decimal_digits :: "string \<Rightarrow> nat option" where
  "decimal_digits ds =
     (if ds \<noteq> [] \<and> list_all is_digit ds then Some (digits_value 10 ds) else None)"

definition signed_integer :: "string \<Rightarrow> int option" where
  "signed_integer s =
     (case s of
        [] \<Rightarrow> None
      | c # ds \<Rightarrow>
          if c = CHR ''+'' then map_option int (decimal_digits ds)
          else if c = CHR ''-'' then map_option (\<lambda>n. - int n) (decimal_digits ds)
          else map_option int (decimal_digits s))"

definition exponent_part :: "string \<Rightarrow> int option" where
  "exponent_part s =
     (case s of
        [] \<Rightarrow> Some 0
      | c # ds \<Rightarrow> if c = CHR ''e'' \<or> c = CHR ''E'' then signed_integer ds else None)"

text \<open>The mathematical value of an unsigned decimal literal, as a fraction.\<close>

definition str_unsigned_decimal :: "string \<Rightarrow> (nat \<times> nat) option" where
  "str_unsigned_decimal s =
     (let ip = takeWhile is_digit s;
          r1 = dropWhile is_digit s;
          fp = (case r1 of [] \<Rightarrow> [] | c # t \<Rightarrow> if c = CHR ''.'' then takeWhile is_digit t else []);
          r2 = (case r1 of [] \<Rightarrow> [] | c # t \<Rightarrow> if c = CHR ''.'' then dropWhile is_digit t else r1)
      in if ip = [] \<and> fp = [] then None
         else
           (case exponent_part r2 of
              None \<Rightarrow> None
            | Some e \<Rightarrow>
                (let m = digits_value 10 (ip @ fp);
                     x = e - int (length fp)
                 in Some (if 0 \<le> x then (m * 10 ^ nat x, 1) else (m, 10 ^ nat (- x))))))"

definition non_decimal_integer :: "string \<Rightarrow> nat option" where
  "non_decimal_integer s =
     (case s of
        z # x # ds \<Rightarrow>
          if z = CHR ''0'' \<and> ds \<noteq> [] then
            (if (x = CHR ''x'' \<or> x = CHR ''X'') \<and> list_all is_hex_digit ds
             then Some (digits_value 16 ds)
             else if (x = CHR ''o'' \<or> x = CHR ''O'') \<and> list_all is_octal_digit ds
             then Some (digits_value 8 ds)
             else if (x = CHR ''b'' \<or> x = CHR ''B'') \<and> list_all is_binary_digit ds
             then Some (digits_value 2 ds)
             else None)
          else None
      | _ \<Rightarrow> None)"

definition str_decimal :: "bool \<Rightarrow> string \<Rightarrow> jsnum" where
  "str_decimal negative s =
     (case str_unsigned_decimal s of
        None \<Rightarrow> NaN
      | Some (p, q) \<Rightarrow> number_value negative p q)"

definition string_to_number :: "string \<Rightarrow> jsnum" where
  "string_to_number s =
     (let t = trim s
      in if t = [] then Finite 0
         else if t = ''Infinity'' \<or> t = ''+Infinity'' then PosInfinity
         else if t = ''-Infinity'' then NegInfinity
         else
           (case non_decimal_integer t of
              Some n \<Rightarrow> number_value False n 1
            | None \<Rightarrow>
                if hd t = CHR ''+'' then str_decimal False (tl t)
                else if hd t = CHR ''-'' then str_decimal True (tl t)
                else str_decimal False t))"

definition bool_to_number :: "bool \<Rightarrow> jsnum" where
  "bool_to_number b = Finite (if b then 1 else 0)"

fun loose_eq :: "jsval \<Rightarrow> jsval \<Rightarrow> bool" where
  "loose_eq (JNum x) (JNum y) = num_eq x y"
| "loose_eq (JStr s) (JStr t) = (s = t)"
| "loose_eq (JBool a) (JBool b) = (a = b)"
| "loose_eq JUndefined JUndefined = True"
| "loose_eq JUndefined JNull = True"
| "loose_eq JNull JUndefined = True"
| "loose_eq JNull JNull = True"
| "loose_eq (JNum x) (JStr s) = num_eq x (string_to_number s)"
| "loose_eq (JStr s) (JNum y) = num_eq (string_to_number s) y"
| "loose_eq (JBool b) (JNum y) = num_eq (bool_to_number b) y"
| "loose_eq (JNum x) (JBool b) = num_eq x (bool_to_number b)"
| "loose_eq (JBool b) (JStr s) = num_eq (bool_to_number b) (string_to_number s)"
| "loose_eq (JStr s) (JBool b) = num_eq (string_to_number s) (bool_to_number b)"
| "loose_eq _ _ = False"

section \<open>The ownership check\<close>

text \<open>
  The handler of \<open>PUT /api/negocios/:id\<close>, behind
  \<open>verifyToken(['admin_negocio', 'super_admin'])\<close>. \<open>req.params.id\<close> is a string.
  The \<open>UPDATE\<close> of the table \<open>negocios\<close> is the store's: the handler takes its effect
  as a parameter. The body of the request is not modelled: a call the driver refuses
  because a field of the body is \<open>undefined\<close> is a call that rejects.
\<close>

definition put_negocio ::
  "jsobject \<Rightarrow> string \<Rightarrow> (string \<Rightarrow> database \<Rightarrow> unit \<times> database) \<Rightarrow> database
     \<Rightarrow> response \<times> database" where
  "put_negocio user negocioId update_negocios db =
     (if strict_eq (js_prop user ''tipo'') (JStr ''admin_negocio'')
         \<and> \<not> loose_eq (js_prop user ''negocio_id'') (JStr negocioId)
      then (forbidden_ownership, db)
      else
        (case pool_execute (update_negocios negocioId) db of
           (Inl err, db1) \<Rightarrow> (internal_error, db1)
         | (Inr _, db1) \<Rightarrow> (json_message 200 True msg_negocio_actualizado, db1)))"

definition route_put_negocio ::
  "library \<Rightarrow> string \<Rightarrow> nat \<Rightarrow> string option \<Rightarrow> string
     \<Rightarrow> (string \<Rightarrow> database \<Rightarrow> unit \<times> database) \<Rightarrow> database \<Rightarrow> response \<times> database" where
  "route_put_negocio lib secret now authorization negocioId update_negocios db =
     (case verifyToken lib secret now [''admin_negocio'', ''super_admin''] authorization of
        Respond r \<Rightarrow> (r, db)
      | Next user \<Rightarrow> put_negocio user negocioId update_negocios db)"

text \<open>The decimal numeral of a business id, as a client writes it into the path.\<close>

fun decimal :: "nat \<Rightarrow> string" where
  "decimal n =
     (if n < 10 then [char_of (48 + n)]
      else decimal (n div 10) @ [char_of (48 + n mod 10)])"

declare decimal.simps [simp del]

section \<open>An example installation\<close>

text \<open>
  A library to run the handlers on: the hash of a password is the salt and the password,
  and the tokens on the wire are the names of a small table of issued tokens.
\<close>

definition example_claims :: "string \<Rightarrow> jsobject" where
  "example_claims name =
     (if name = ''turista-1'' then
        [(''id'', js_number 1), (''email'', JStr ''a@x.com''), (''tipo'', JStr ''turista'')]
      else if name = ''admin-5'' then
        [(''id'', js_number 2), (''email'', JStr ''b@x.com''),
         (''negocio_id'', js_number 5), (''tipo'', JStr ''admin_negocio'')]
      else
        [(''id'', js_number 3), (''usuario'', JStr ''root''), (''tipo'', JStr ''super_admin''),
         (''nivel_acceso'', JStr ''total'')])"

definition example_wire :: "string \<Rightarrow> token" where
  "example_wire t =
     (if t \<in> {''turista-1'', ''admin-5'', ''super-3''}
      then token_issue (example_claims t) ''k'' 1000
      else if t = ''forged''
      then token_issue (example_claims ''super-3'') ''other key'' 1000
      else Unparseable)"

definition example_library :: library where
  "example_library =
     \<lparr>bcrypt_hash = (\<lambda>password rounds salt. salt @ ''$'' @ password),
      bcrypt_compare = (\<lambda>password h. tl (dropWhile (\<lambda>c. c \<noteq> CHR ''$'') h) = password),
      jwt_sign = (\<lambda>claims secret_key expires_in now.
         (case js_prop claims ''tipo'' of JStr t \<Rightarrow> t | _ \<Rightarrow> []) @ ''-signed''),
      jwt_verify = (\<lambda>t secret_key now. token_verify (example_wire t) secret_key now)\<rparr>"

text \<open>
  The store the examples run on: two tourists, two business administrators and two super
  administrators, the second of each pair inactive; every password is \<open>secret1\<close>.
\<close>

definition example_database :: database where
  "example_database =
     \<lparr>turistas =
        [\<lparr>tu_id = 1, tu_nombre = ''Ana'', tu_apellido = ''Ruiz'', tu_email = ''a@x.com'',
          tu_password_hash = ''salt$secret1'', tu_estado = ''activo'', tu_telefono = None,
          tu_pais_origen = None, tu_ciudad_origen = None, tu_ultima_conexion = None\<rparr>,
         \<lparr>tu_id = 2, tu_nombre = ''Luis'', tu_apellido = ''Mora'', tu_email = ''c@x.com'',
          tu_password_hash = ''salt$secret1'', tu_estado = ''inactivo'', tu_telefono = None,
          tu_pais_origen = None, tu_ciudad_origen = None, tu_ultima_conexion = None\<rparr>],
      negocios = [\<lparr>ne_id = 5, ne_nombre = ''Cafe''\<rparr>, \<lparr>ne_id = 6, ne_nombre = ''Hotel''\<rparr>],
      administradores_negocios =
        [\<lparr>an_id = 2, an_negocio_id = 5, an_nombre = ''Eva'', an_apellido = ''Paz'',
          an_email = ''b@x.com'', an_password_hash = ''salt$secret1'', an_estado = ''activo'',
          an_permisos = JNull, an_ultima_conexion = None\<rparr>,
         \<lparr>an_id = 4, an_negocio_id = 6, an_nombre = ''Leo'', an_apellido = ''Gil'',
          an_email = ''d@x.com'', an_password_hash = ''salt$secret1'', an_estado = ''inactivo'',
          an_permisos = JNull, an_ultima_conexion = None\<rparr>],
      super_administradores =
        [\<lparr>sa_id = 3, sa_usuario = ''root'', sa_nombre = ''Root'', sa_email = ''r@x.com'',
          sa_password_hash = ''salt$secret1'', sa_nivel_acceso = JStr ''total'',
          sa_permisos = JNull, sa_estado = ''activo'', sa_ultima_conexion = None\<rparr>,
         \<lparr>sa_id = 7, sa_usuario = ''former'', sa_nombre = ''Former'', sa_email = ''f@x.com'',
          sa_password_hash = ''salt$secret1'', sa_nivel_acceso = JStr ''total'',
          sa_permisos = JNull, sa_estado = ''inactivo'', sa_ultima_conexion = None\<rparr>],
      turistas_auto_increment = 3,
      sql_eq = (\<lambda>a b. a = b),
      db_now = 1000,
      faults = []\<rparr>"

section \<open>Properties of the access guard\<close>

lemma js_split_no_sep:
  "sep \<notin> set w \<Longrightarrow> js_split sep w = [w]"
  by (induction w) auto

lemma js_split_at_first_sep:
  "sep \<notin> set w \<Longrightarrow> js_split sep (w @ sep # r) = w # js_split sep r"
  by (induction w) auto

lemma token_of_header_segment:
  assumes "CHR '' '' \<notin> set scheme" and "CHR '' '' \<notin> set t"
  shows "token_of_header (Some (scheme @ CHR '' '' # t)) = Some t"
    and "token_of_header (Some (scheme @ CHR '' '' # t @ CHR '' '' # r)) = Some t"
proof -
  show "token_of_header (Some (scheme @ CHR '' '' # t)) = Some t"
    using assms by (simp add: token_of_header_def js_split_at_first_sep js_split_no_sep)
  have "js_split (CHR '' '') (t @ CHR '' '' # r) = t # js_split (CHR '' '') r"
    using assms(2) by (rule js_split_at_first_sep)
  then show "token_of_header (Some (scheme @ CHR '' '' # t @ CHR '' '' # r)) = Some t"
    using assms(1) by (simp add: token_of_header_def js_split_at_first_sep)
qed

lemma token_of_header_no_space:
  "CHR '' '' \<notin> set v \<Longrightarrow> token_of_header (Some v) = None"
  by (simp add: token_of_header_def js_split_no_sep)

lemma verifyToken_cong_token:
  "token_of_header a = token_of_header b \<Longrightarrow>
     verifyToken lib secret now roles a = verifyToken lib secret now roles b"
  by (simp add: verifyToken_def)

lemma example_verify_forged:
  "jwt_verify example_library ''forged'' ''k'' 2000 = Inl InvalidSignature"
  by (simp add: example_library_def example_wire_def token_verify_def token_issue_def)

lemma example_verify_admin:
  "jwt_verify example_library ''admin-5'' ''k'' 2000 = Inr (example_claims ''admin-5'')"
  by (simp add: example_library_def example_wire_def token_verify_def token_issue_def
      token_lifetime_def)

lemma example_header_admin:
  "token_of_header (Some ''Bearer admin-5'') = Some ''admin-5''"
  by (simp add: token_of_header_def)

lemma example_header_forged:
  "token_of_header (Some ''Bearer forged'') = Some ''forged''"
  by (simp add: token_of_header_def)

lemma example_tipo_admin:
  "js_prop (example_claims ''admin-5'') ''tipo'' = JStr ''admin_negocio''"
  by (simp add: example_claims_def js_prop_def)

text \<open>
  C1. The decision of the access guard. With no token (no header, no second segment of
  the header, or an empty one) the guard answers 401 "Token no proporcionado". With a token
  whose verification fails, whatever the kind of the failure, it answers the one response
  401 "Token invalido". With a verified token, a non-empty list of roles and a decoded
  \<open>tipo\<close> that is not in the list, it answers 403 "Acceso denegado". Otherwise it calls
  \<open>next()\<close> with the decoded claims bound to the request. These are all the outcomes:
  the guard is a total function, and a failed verification is one of its responses.
\<close>

theorem verifyToken_decision:
  "(authorization = None \<or> token_of_header authorization = None
      \<or> token_of_header authorization = Some [] \<longrightarrow>
      verifyToken lib secret now roles authorization = Respond unauthenticated_no_token) \<and>
   (token_of_header authorization = Some t \<and> t \<noteq> []
      \<and> jwt_verify lib t secret now = Inl err \<longrightarrow>
      verifyToken lib secret now roles authorization = Respond unauthenticated_invalid_token) \<and>
   (token_of_header authorization = Some t \<and> t \<noteq> []
      \<and> jwt_verify lib t secret now = Inr decoded
      \<and> roles \<noteq> [] \<and> js_prop decoded ''tipo'' \<notin> JStr ` set roles \<longrightarrow>
      verifyToken lib secret now roles authorization = Respond forbidden_role) \<and>
   (token_of_header authorization = Some t \<and> t \<noteq> []
      \<and> jwt_verify lib t secret now = Inr decoded
      \<and> (roles = [] \<or> js_prop decoded ''tipo'' \<in> JStr ` set roles) \<longrightarrow>
      verifyToken lib secret now roles authorization = Next decoded) \<and>
   (verifyToken lib secret now roles authorization
      \<in> {Respond unauthenticated_no_token, Respond unauthenticated_invalid_token,
          Respond forbidden_role}
    \<or> (\<exists>t' d. token_of_header authorization = Some t'
          \<and> jwt_verify lib t' secret now = Inr d
          \<and> verifyToken lib secret now roles authorization = Next d)) \<and>
   http_status unauthenticated_no_token = 401 \<and>
   http_status unauthenticated_invalid_token = 401 \<and>
   http_status forbidden_role = 403 \<and>
   unauthenticated_no_token \<noteq> unauthenticated_invalid_token"
proof -
  have total: "verifyToken lib secret now roles authorization
      \<in> {Respond unauthenticated_no_token, Respond unauthenticated_invalid_token,
          Respond forbidden_role}
    \<or> (\<exists>t' d. token_of_header authorization = Some t'
          \<and> jwt_verify lib t' secret now = Inr d
          \<and> verifyToken lib secret now roles authorization = Next d)"
    by (auto simp: verifyToken_def split: option.splits sum.splits)
  have cases: "(authorization = None \<or> token_of_header authorization = None
      \<or> token_of_header authorization = Some [] \<longrightarrow>
      verifyToken lib secret now roles authorization = Respond unauthenticated_no_token) \<and>
   (token_of_header authorization = Some t \<and> t \<noteq> []
      \<and> jwt_verify lib t secret now = Inl err \<longrightarrow>
      verifyToken lib secret now roles authorization = Respond unauthenticated_invalid_token) \<and>
   (token_of_header authorization = Some t \<and> t \<noteq> []
      \<and> jwt_verify lib t secret now = Inr decoded
      \<and> roles \<noteq> [] \<and> js_prop decoded ''tipo'' \<notin> JStr ` set roles \<longrightarrow>
      verifyToken lib secret now roles authorization = Respond forbidden_role) \<and>
   (token_of_header authorization = Some t \<and> t \<noteq> []
      \<and> jwt_verify lib t secret now = Inr decoded
      \<and> (roles = [] \<or> js_prop decoded ''tipo'' \<in> JStr ` set roles) \<longrightarrow>
      verifyToken lib secret now roles authorization = Next decoded)"
    by (auto simp: verifyToken_def token_of_header_def js_includes_def)
  have responses: "http_status unauthenticated_no_token = 401"
    "http_status unauthenticated_invalid_token = 401"
    "http_status forbidden_role = 403"
    "unauthenticated_no_token \<noteq> unauthenticated_invalid_token"
    by (simp_all add: unauthenticated_no_token_def unauthenticated_invalid_token_def
        forbidden_role_def json_message_def msg_token_no_proporcionado_def
        msg_token_invalido_def)
  from cases total responses show ?thesis by blast
qed

theorem verifyToken_decision_witness:
  "verifyToken example_library ''k'' 2000 [''super_admin''] None
     = Respond unauthenticated_no_token \<and>
   verifyToken example_library ''k'' 2000 [''super_admin''] (Some ''Bearer forged'')
     = Respond unauthenticated_invalid_token \<and>
   verifyToken example_library ''k'' 2000 [''super_admin''] (Some ''Bearer admin-5'')
     = Respond forbidden_role \<and>
   verifyToken example_library ''k'' 2000 [''admin_negocio'', ''super_admin'']
     (Some ''Bearer admin-5'') = Next (example_claims ''admin-5'')"
proof -
  note d = verifyToken_decision
  have 1: "verifyToken example_library ''k'' 2000 [''super_admin''] None
     = Respond unauthenticated_no_token"
    using d [of None example_library "''k''" 2000 "[''super_admin'']"] by simp
  have 2: "verifyToken example_library ''k'' 2000 [''super_admin''] (Some ''Bearer forged'')
     = Respond unauthenticated_invalid_token"
    using d [of "Some ''Bearer forged''" example_library "''k''" 2000 "[''super_admin'']"
        "''forged''" InvalidSignature]
      example_header_forged example_verify_forged by simp
  have 3: "verifyToken example_library ''k'' 2000 [''super_admin''] (Some ''Bearer admin-5'')
     = Respond forbidden_role"
    using d [of "Some ''Bearer admin-5''" example_library "''k''" 2000 "[''super_admin'']"
        "''admin-5''" _ "example_claims ''admin-5''"]
      example_header_admin example_verify_admin example_tipo_admin by simp
  have 4: "verifyToken example_library ''k'' 2000 [''admin_negocio'', ''super_admin'']
     (Some ''Bearer admin-5'') = Next (example_claims ''admin-5'')"
    using d [of "Some ''Bearer admin-5''" example_library "''k''" 2000
        "[''admin_negocio'', ''super_admin'']" "''admin-5''" _ "example_claims ''admin-5''"]
      example_header_admin example_verify_admin example_tipo_admin by simp
  from 1 2 3 4 show ?thesis by simp
qed

text \<open>
  C7. An empty list of roles restricts nothing: with a token that verifies, the guard built
  with no roles calls \<open>next()\<close> with the decoded claims, whatever the decoded \<open>tipo\<close>
  is, also when the claims have none.
\<close>

theorem verifyToken_empty_roles_admits:
  "token_of_header authorization = Some t \<Longrightarrow> t \<noteq> [] \<Longrightarrow>
   jwt_verify lib t secret now = Inr decoded \<Longrightarrow>
   verifyToken lib secret now [] authorization = Next decoded"
  by (simp add: verifyToken_def)

theorem verifyToken_empty_roles_admits_witness:
  "verifyToken example_library ''k'' 2000 [] (Some ''Bearer admin-5'')
     = Next (example_claims ''admin-5'')"
  using verifyToken_empty_roles_admits
    [OF example_header_admin _ example_verify_admin] by simp

text \<open>
  C9, as stated, fails: the header \<open>Bearer a b\<close> contains a space and what follows its
  first space is \<open>a b\<close>, but the guard verifies \<open>a\<close>, the segment up to the next space.
  With a library for which \<open>a b\<close> is a valid token and nothing else is, the request is
  rejected.
\<close>

theorem header_token_counterexample:
  "CHR '' '' \<in> set ''Bearer a b'' \<and>
   after_first_space ''Bearer a b'' = ''a b'' \<and>
   token_of_header (Some ''Bearer a b'') = Some ''a'' \<and>
   token_of_header (Some ''Bearer a b'') \<noteq> Some (after_first_space ''Bearer a b'') \<and>
   verifyToken
     (example_library\<lparr>jwt_verify := \<lambda>t k n. if t = ''a b'' then Inr [] else Inl Malformed\<rparr>)
     ''k'' 0 [] (Some ''Bearer a b'') = Respond unauthenticated_invalid_token"
  by (simp add: after_first_space_def token_of_header_def verifyToken_def)

text \<open>
  C9, amended. The guard never looks at the scheme word. When the header value has a
  space, the token is the segment between the first space and the next one (or the end of
  the value): a value made of any word without a space, a space and that segment is treated
  as \<open>Bearer\<close> followed by it, and whatever follows a second space is ignored. A value
  with no space, and a value whose segment after the first space is empty, give no token:
  the answer is 401 "Token no proporcionado".
\<close>

theorem verifyToken_scheme_ignored:
  "(CHR '' '' \<notin> set scheme \<and> CHR '' '' \<notin> set t \<longrightarrow>
      token_of_header (Some (scheme @ CHR '' '' # t)) = Some t \<and>
      token_of_header (Some (scheme @ CHR '' '' # t @ CHR '' '' # r)) = Some t \<and>
      verifyToken lib secret now roles (Some (scheme @ CHR '' '' # t))
        = verifyToken lib secret now roles (Some (''Bearer '' @ t)) \<and>
      verifyToken lib secret now roles (Some (scheme @ CHR '' '' # t @ CHR '' '' # r))
        = verifyToken lib secret now roles (Some (''Bearer '' @ t))) \<and>
   (CHR '' '' \<notin> set v \<longrightarrow>
      verifyToken lib secret now roles (Some v) = Respond unauthenticated_no_token) \<and>
   (CHR '' '' \<notin> set scheme \<longrightarrow>
      verifyToken lib secret now roles (Some (scheme @ '' ''))
        = Respond unauthenticated_no_token \<and>
      verifyToken lib secret now roles (Some (scheme @ CHR '' '' # CHR '' '' # r))
        = Respond unauthenticated_no_token)"
proof (intro conjI impI)
  assume a: "CHR '' '' \<notin> set scheme \<and> CHR '' '' \<notin> set t"
  have b: "CHR '' '' \<notin> set ''Bearer''" by simp
  show 1: "token_of_header (Some (scheme @ CHR '' '' # t)) = Some t"
    using a token_of_header_segment(1) by blast
  show 2: "token_of_header (Some (scheme @ CHR '' '' # t @ CHR '' '' # r)) = Some t"
    using a token_of_header_segment(2) by blast
  have 3: "token_of_header (Some (''Bearer '' @ t)) = Some t"
    using token_of_header_segment(1) [OF b, of t] a by simp
  show "verifyToken lib secret now roles (Some (scheme @ CHR '' '' # t))
        = verifyToken lib secret now roles (Some (''Bearer '' @ t))"
    by (rule verifyToken_cong_token) (simp only: 1 3)
  show "verifyToken lib secret now roles (Some (scheme @ CHR '' '' # t @ CHR '' '' # r))
        = verifyToken lib secret now roles (Some (''Bearer '' @ t))"
    by (rule verifyToken_cong_token) (simp only: 2 3)
next
  assume "CHR '' '' \<notin> set v"
  then show "verifyToken lib secret now roles (Some v) = Respond unauthenticated_no_token"
    by (simp add: verifyToken_def token_of_header_no_space)
next
  assume a: "CHR '' '' \<notin> set scheme"
  have "token_of_header (Some (scheme @ CHR '' '' # [])) = Some []"
    using token_of_header_segment(1) [OF a, of "[]"] by simp
  then show "verifyToken lib secret now roles (Some (scheme @ '' ''))
        = Respond unauthenticated_no_token"
    by (simp add: verifyToken_def)
  have "token_of_header (Some (scheme @ CHR '' '' # [] @ CHR '' '' # r)) = Some []"
    using token_of_header_segment(2) [OF a, of "[]" r] by simp
  then show "verifyToken lib secret now roles (Some (scheme @ CHR '' '' # CHR '' '' # r))
        = Respond unauthenticated_no_token"
    by (simp add: verifyToken_def)
qed

theorem verifyToken_scheme_ignored_witness:
  "verifyToken example_library ''k'' 2000 [] (Some ''Basic admin-5'')
     = Next (example_claims ''admin-5'') \<and>
   verifyToken example_library ''k'' 2000 [] (Some ''Basic admin-5 and more'')
     = Next (example_claims ''admin-5'') \<and>
   verifyToken example_library ''k'' 2000 [] (Some ''Bearer'')
     = Respond unauthenticated_no_token \<and>
   verifyToken example_library ''k'' 2000 [] (Some ''Bearer  admin-5'')
     = Respond unauthenticated_no_token"
proof -
  have b: "verifyToken example_library ''k'' 2000 [] (Some ''Bearer admin-5'')
     = Next (example_claims ''admin-5'')"
    by (simp add: verifyToken_def example_header_admin example_verify_admin)
  have 1: "verifyToken example_library ''k'' 2000 [] (Some ''Basic admin-5'')
     = Next (example_claims ''admin-5'')"
    using verifyToken_scheme_ignored
      [of "''Basic''" "''admin-5''" _ example_library "''k''" 2000 "[]"] b
    by simp
  have 2: "verifyToken example_library ''k'' 2000 [] (Some ''Basic admin-5 and more'')
     = Next (example_claims ''admin-5'')"
    using verifyToken_scheme_ignored
      [of "''Basic''" "''admin-5''" "''and more''" example_library "''k''" 2000 "[]"] b
    by simp
  have 3: "verifyToken example_library ''k'' 2000 [] (Some ''Bearer'')
     = Respond unauthenticated_no_token"
    using verifyToken_scheme_ignored
      [of _ _ _ example_library "''k''" 2000 "[]" "''Bearer''"]
    by simp
  have 4: "verifyToken example_library ''k'' 2000 [] (Some ''Bearer  admin-5'')
     = Respond unauthenticated_no_token"
    using verifyToken_scheme_ignored
      [of "''Bearer''" _ "''admin-5''" example_library "''k''" 2000 "[]"]
    by simp
  from 1 2 3 4 show ?thesis by simp
qed

section \<open>Properties of the token codec\<close>

text \<open>
  C6. Verifying an issued token with the key it was issued with returns the claims it was
  issued for as long as the current time is before the issuance time plus 24 hours. From
  the issuance time plus 24 hours on, verification fails with \<open>Expired\<close>; one second
  before, it succeeds.
\<close>

theorem token_round_trip:
  "(now < issued_at + token_lifetime \<longrightarrow>
      token_verify (token_issue claims secret_key issued_at) secret_key now = Inr claims) \<and>
   (issued_at + token_lifetime \<le> now \<longrightarrow>
      token_verify (token_issue claims secret_key issued_at) secret_key now = Inl Expired) \<and>
   token_verify (token_issue claims secret_key issued_at) secret_key
      (issued_at + token_lifetime - 1) = Inr claims \<and>
   token_lifetime = 86400"
  by (simp add: token_verify_def token_issue_def token_lifetime_def)

theorem token_round_trip_witness:
  "token_verify (token_issue (example_claims ''admin-5'') ''k'' 1000) ''k'' 87399
     = Inr (example_claims ''admin-5'') \<and>
   token_verify (token_issue (example_claims ''admin-5'') ''k'' 1000) ''k'' 87400
     = Inl Expired"
  using token_round_trip [of 87399 1000 "example_claims ''admin-5''" "''k''"]
    token_round_trip [of 87400 1000 "example_claims ''admin-5''" "''k''"]
  by simp

section \<open>Properties of the authenticator\<close>

lemma advance_faults_Nil: "faults db = [] \<Longrightarrow> advance db = db"
  by (simp add: advance_def)

lemma pool_execute_accepts:
  assumes "\<not> rejects 0 db"
  shows "pool_execute statement db
           = (Inr (fst (statement (advance db))), snd (statement (advance db)))"
proof (cases "faults db")
  case Nil
  then have "advance db = db" by (rule advance_faults_Nil)
  with Nil show ?thesis by (simp add: pool_execute_def split: prod.splits)
next
  case (Cons f fs)
  with assms show ?thesis
    by (auto simp: pool_execute_def rejects_def advance_def split: prod.splits)
qed

lemma pool_execute_rejects:
  "rejects 0 db \<Longrightarrow> pool_execute statement db = (Inl StoreFault, advance db)"
  by (cases "faults db") (auto simp: pool_execute_def rejects_def advance_def)

lemma rejects_Suc: "rejects (Suc i) db = rejects i (advance db)"
  by (cases "faults db") (auto simp: rejects_def advance_def)

lemma select_turistas_advance:
  "select_turistas_by_email email (advance db)
     = (fst (select_turistas_by_email email db), advance db)"
  by (simp add: select_turistas_by_email_def advance_def)

lemma select_admins_advance:
  "select_admins_by_email email (advance db)
     = (fst (select_admins_by_email email db), advance db)"
  by (simp add: select_admins_by_email_def advance_def)

lemma select_supers_advance:
  "select_supers_by_usuario usuario (advance db)
     = (fst (select_supers_by_usuario usuario db), advance db)"
  by (simp add: select_supers_by_usuario_def advance_def)

lemma inactive_is_not_invalid: "inactive_account \<noteq> invalid_credentials"
  by (simp add: inactive_account_def invalid_credentials_def json_message_def
      msg_cuenta_inactiva_def msg_credenciales_invalidas_def)

text \<open>The three handlers, one lookup that was answered at a time.\<close>

lemma turista_login_found:
  assumes "\<not> rejects 0 db" and "fst (select_turistas_by_email email db) = user # rest"
  shows "turista_login lib secret now email password db =
     (if tu_estado user \<noteq> ''activo'' then (inactive_account, advance db)
      else if \<not> bcrypt_compare lib password (tu_password_hash user)
      then (invalid_credentials, advance db)
      else (case pool_execute (update_turista_ultima_conexion (tu_id user)) (advance db) of
              (Inl err, db2) \<Rightarrow> (internal_error, db2)
            | (Inr _, db2) \<Rightarrow>
                (json_with_data 200 msg_login_exitoso
                   (DataLogin
                      (jwt_sign lib
                         [(''id'', js_number (tu_id user)), (''email'', JStr (tu_email user)),
                          (''tipo'', JStr ''turista'')] secret ''24h'' now)
                      [(''id'', js_number (tu_id user)),
                       (''nombre'', JStr (tu_nombre user)),
                       (''apellido'', JStr (tu_apellido user)),
                       (''email'', JStr (tu_email user))]), db2)))"
  using assms
  by (simp add: turista_login_def pool_execute_accepts select_turistas_advance)


lemma admin_login_found:
  assumes "\<not> rejects 0 db" and "fst (select_admins_by_email email db) = (user, n) # rest"
  shows "admin_login lib secret now email password db =
     (if an_estado user \<noteq> ''activo'' then (inactive_account, advance db)
      else if \<not> bcrypt_compare lib password (an_password_hash user)
      then (invalid_credentials, advance db)
      else (case pool_execute (update_admin_ultima_conexion (an_id user)) (advance db) of
              (Inl err, db2) \<Rightarrow> (internal_error, db2)
            | (Inr _, db2) \<Rightarrow>
                (json_with_data 200 msg_login_exitoso
                   (DataLogin
                      (jwt_sign lib
                         [(''id'', js_number (an_id user)), (''email'', JStr (an_email user)),
                          (''negocio_id'', js_number (an_negocio_id user)),
                          (''tipo'', JStr ''admin_negocio'')] secret ''24h'' now)
                      [(''id'', js_number (an_id user)),
                       (''nombre'', JStr (an_nombre user)),
                       (''apellido'', JStr (an_apellido user)),
                       (''email'', JStr (an_email user)),
                       (''negocio_id'', js_number (an_negocio_id user)),
                       (''nombre_negocio'', JStr (ne_nombre n)),
                       (''permisos'', an_permisos user)]), db2)))"
  using assms
  by (simp add: admin_login_def pool_execute_accepts select_admins_advance)

lemma admin_login_not_found:
  assumes "\<not> rejects 0 db" and "fst (select_admins_by_email email db) = []"
  shows "admin_login lib secret now email password db = (invalid_credentials, advance db)"
  using assms
  by (simp add: admin_login_def pool_execute_accepts select_admins_advance)

lemma super_admin_login_found:
  assumes "\<not> rejects 0 db" and "fst (select_supers_by_usuario usuario db) = user # rest"
  shows "super_admin_login lib secret now usuario password db =
     (if \<not> bcrypt_compare lib password (sa_password_hash user)
      then (invalid_credentials, advance db)
      else (case pool_execute (update_super_ultima_conexion (sa_id user)) (advance db) of
              (Inl err, db2) \<Rightarrow> (internal_error, db2)
            | (Inr _, db2) \<Rightarrow>
                (json_with_data 200 msg_login_exitoso
                   (DataLogin
                      (jwt_sign lib
                         [(''id'', js_number (sa_id user)),
                          (''usuario'', JStr (sa_usuario user)),
                          (''tipo'', JStr ''super_admin''),
                          (''nivel_acceso'', sa_nivel_acceso user)] secret ''24h'' now)
                      [(''id'', js_number (sa_id user)),
                       (''usuario'', JStr (sa_usuario user)),
                       (''nombre'', JStr (sa_nombre user)),
                       (''email'', JStr (sa_email user)),
                       (''nivel_acceso'', sa_nivel_acceso user),
                       (''permisos'', sa_permisos user)]), db2)))"
  using assms
  by (simp add: super_admin_login_def pool_execute_accepts select_supers_advance)

lemma super_admin_login_not_found:
  assumes "\<not> rejects 0 db" and "fst (select_supers_by_usuario usuario db) = []"
  shows "super_admin_login lib secret now usuario password db
           = (invalid_credentials, advance db)"
  using assms
  by (simp add: super_admin_login_def pool_execute_accepts select_supers_advance)

lemma select_supers_none_active:
  assumes "\<forall>u \<in> set (super_administradores db).
             sql_eq db (sa_usuario u) usuario \<longrightarrow> \<not> sql_eq db (sa_estado u) ''activo''"
  shows "fst (select_supers_by_usuario usuario db) = []"
  using assms by (auto simp: select_supers_by_usuario_def filter_empty_conv)

text \<open>The examples, evaluated.\<close>

lemma example_accepts: "\<not> rejects i example_database"
  by (simp add: rejects_def example_database_def)

lemma example_compare:
  "bcrypt_compare example_library ''secret1'' ''salt$secret1''"
  "\<not> bcrypt_compare example_library ''wrongpass'' ''salt$secret1''"
  by (simp_all add: example_library_def)

lemma example_select_turistas:
  "fst (select_turistas_by_email ''a@x.com'' example_database)
     = [hd (turistas example_database)]"
  "fst (select_turistas_by_email ''c@x.com'' example_database)
     = [turistas example_database ! Suc 0]"
  "fst (select_turistas_by_email ''z@x.com'' example_database) = []"
  by (simp_all add: select_turistas_by_email_def example_database_def)


lemma example_select_supers:
  "fst (select_supers_by_usuario ''root'' example_database)
     = [hd (super_administradores example_database)]"
  "fst (select_supers_by_usuario ''former'' example_database) = []"
  "fst (select_supers_by_usuario ''nobody'' example_database) = []"
  by (simp_all add: select_supers_by_usuario_def example_database_def)

lemma example_rows:
  "tu_estado (hd (turistas example_database)) = ''activo''"
  "tu_password_hash (hd (turistas example_database)) = ''salt$secret1''"
  "tu_estado (turistas example_database ! Suc 0) = ''inactivo''"
  "tu_password_hash (turistas example_database ! Suc 0) = ''salt$secret1''"
  "an_estado (hd (administradores_negocios example_database)) = ''activo''"
  "an_password_hash (hd (administradores_negocios example_database)) = ''salt$secret1''"
  "an_estado (administradores_negocios example_database ! Suc 0) = ''inactivo''"
  "an_password_hash (administradores_negocios example_database ! Suc 0) = ''salt$secret1''"
  "sa_password_hash (hd (super_administradores example_database)) = ''salt$secret1''"
  "sa_estado (super_administradores example_database ! Suc 0) = ''inactivo''"
  "sa_usuario (super_administradores example_database ! Suc 0) = ''former''"
  "sa_password_hash (super_administradores example_database ! Suc 0) = ''salt$secret1''"
  by (simp_all add: example_database_def)

text \<open>
  C3, as stated, fails for the super administrator: the inactive super administrator
  \<open>former\<close> of the example store, logging in with the right password, gets the response
  of invalid credentials, which is not the response of an inactive account.
\<close>

theorem inactive_super_admin_counterexample:
  "sa_usuario (super_administradores example_database ! Suc 0) = ''former'' \<and>
   sa_estado (super_administradores example_database ! Suc 0) = ''inactivo'' \<and>
   bcrypt_compare example_library ''secret1''
     (sa_password_hash (super_administradores example_database ! Suc 0)) \<and>
   fst (super_admin_login example_library ''k'' 1000 ''former'' ''secret1'' example_database)
     = invalid_credentials \<and>
   fst (super_admin_login example_library ''k'' 1000 ''former'' ''secret1'' example_database)
     \<noteq> inactive_account"
  using inactive_is_not_invalid
  by (simp add: super_admin_login_not_found example_accepts example_select_supers
      example_rows example_compare)

lemma select_turistas_first:
  assumes "\<exists>u \<in> set (turistas db). sql_eq db (tu_email u) email"
  obtains tu tus where "fst (select_turistas_by_email email db) = tu # tus"
    and "tu \<in> set (turistas db)" and "sql_eq db (tu_email tu) email"
proof -
  let ?rows = "filter (\<lambda>u. sql_eq db (tu_email u) email) (turistas db)"
  from assms have "?rows \<noteq> []" by (simp add: filter_empty_conv)
  then obtain tu tus where r: "?rows = tu # tus" by (cases ?rows) auto
  then have "tu \<in> set ?rows" by simp
  then have "tu \<in> set (turistas db)" "sql_eq db (tu_email tu) email" by simp_all
  with r that show thesis by (simp add: select_turistas_by_email_def)
qed

lemma select_admins_nonempty:
  "fst (select_admins_by_email email db) \<noteq> [] \<longleftrightarrow>
     (\<exists>an \<in> set (administradores_negocios db). sql_eq db (an_email an) email
        \<and> (\<exists>n \<in> set (negocios db). an_negocio_id an = ne_id n))"
  by (auto simp: select_admins_by_email_def filter_empty_conv)

lemma select_admins_first:
  assumes "\<exists>an \<in> set (administradores_negocios db). sql_eq db (an_email an) email
        \<and> (\<exists>n \<in> set (negocios db). an_negocio_id an = ne_id n)"
  obtains an n ans where "fst (select_admins_by_email email db) = (an, n) # ans"
    and "an \<in> set (administradores_negocios db)" and "sql_eq db (an_email an) email"
proof -
  let ?rows = "fst (select_admins_by_email email db)"
  from assms have "?rows \<noteq> []" by (simp only: select_admins_nonempty)
  then obtain an n ans where r: "?rows = (an, n) # ans" by (cases ?rows) auto
  then have "(an, n) \<in> set ?rows" by simp
  then have "an \<in> set (administradores_negocios db)" "sql_eq db (an_email an) email"
    by (auto simp: select_admins_by_email_def)
  with r that show thesis by blast
qed

text \<open>
  C3, amended. When a tourist of the email exists and every stored tourist of that email
  (the one, where the email is unique) has a status other than \<open>activo\<close>, the login
  gets the response of an inactive account, whatever the password, the right one included.
  The same holds for a business administrator whose business exists in the table
  \<open>negocios\<close>: the lookup of that route joins the administrator with its business. A
  business administrator whose business row is missing is refused with the response of
  invalid credentials, active or not, and so is a super administrator with no row of that
  user name in the status \<open>activo\<close>: the lookup of that route filters on the status. The
  two responses differ.
\<close>

theorem inactive_login_fails:
  "(\<not> rejects 0 db
      \<and> (\<exists>u \<in> set (turistas db). sql_eq db (tu_email u) email)
      \<and> (\<forall>u \<in> set (turistas db).
            sql_eq db (tu_email u) email \<longrightarrow> tu_estado u \<noteq> ''activo'') \<longrightarrow>
      fst (turista_login lib secret now email password db) = inactive_account) \<and>
   (\<not> rejects 0 db
      \<and> (\<exists>an \<in> set (administradores_negocios db). sql_eq db (an_email an) email
            \<and> (\<exists>n \<in> set (negocios db). an_negocio_id an = ne_id n))
      \<and> (\<forall>an \<in> set (administradores_negocios db).
            sql_eq db (an_email an) email \<longrightarrow> an_estado an \<noteq> ''activo'') \<longrightarrow>
      fst (admin_login lib secret now email password db) = inactive_account) \<and>
   (\<not> rejects 0 db
      \<and> (\<forall>an \<in> set (administradores_negocios db).
            sql_eq db (an_email an) email \<longrightarrow>
            \<not> (\<exists>n \<in> set (negocios db). an_negocio_id an = ne_id n)) \<longrightarrow>
      fst (admin_login lib secret now email password db) = invalid_credentials) \<and>
   (\<not> rejects 0 db
      \<and> (\<forall>u \<in> set (super_administradores db).
            sql_eq db (sa_usuario u) usuario \<longrightarrow> \<not> sql_eq db (sa_estado u) ''activo'') \<longrightarrow>
      fst (super_admin_login lib secret now usuario password db) = invalid_credentials) \<and>
   inactive_account \<noteq> invalid_credentials"
proof (intro conjI impI)
  assume a: "\<not> rejects 0 db
      \<and> (\<exists>u \<in> set (turistas db). sql_eq db (tu_email u) email)
      \<and> (\<forall>u \<in> set (turistas db).
            sql_eq db (tu_email u) email \<longrightarrow> tu_estado u \<noteq> ''activo'')"
  then obtain tu tus where r: "fst (select_turistas_by_email email db) = tu # tus"
    and m: "tu \<in> set (turistas db)" "sql_eq db (tu_email tu) email"
    using select_turistas_first [of db email] by blast
  from a m have "tu_estado tu \<noteq> ''activo''" by blast
  with a r show "fst (turista_login lib secret now email password db) = inactive_account"
    by (simp add: turista_login_found)
next
  assume a: "\<not> rejects 0 db
      \<and> (\<exists>an \<in> set (administradores_negocios db). sql_eq db (an_email an) email
            \<and> (\<exists>n \<in> set (negocios db). an_negocio_id an = ne_id n))
      \<and> (\<forall>an \<in> set (administradores_negocios db).
            sql_eq db (an_email an) email \<longrightarrow> an_estado an \<noteq> ''activo'')"
  then obtain an n ans where r: "fst (select_admins_by_email email db) = (an, n) # ans"
    and m: "an \<in> set (administradores_negocios db)" "sql_eq db (an_email an) email"
    using select_admins_first [of db email] by blast
  from a m have "an_estado an \<noteq> ''activo''" by blast
  with a r show "fst (admin_login lib secret now email password db) = inactive_account"
    by (simp add: admin_login_found)
next
  assume a: "\<not> rejects 0 db
      \<and> (\<forall>an \<in> set (administradores_negocios db).
            sql_eq db (an_email an) email \<longrightarrow>
            \<not> (\<exists>n \<in> set (negocios db). an_negocio_id an = ne_id n))"
  then have "fst (select_admins_by_email email db) = []"
    using select_admins_nonempty [of email db] by blast
  with a show "fst (admin_login lib secret now email password db) = invalid_credentials"
    by (simp add: admin_login_not_found)
next
  assume "\<not> rejects 0 db
      \<and> (\<forall>u \<in> set (super_administradores db).
            sql_eq db (sa_usuario u) usuario \<longrightarrow> \<not> sql_eq db (sa_estado u) ''activo'')"
  then show "fst (super_admin_login lib secret now usuario password db)
      = invalid_credentials"
    by (simp add: super_admin_login_not_found select_supers_none_active)
next
  show "inactive_account \<noteq> invalid_credentials" by (rule inactive_is_not_invalid)
qed

theorem inactive_login_fails_witness:
  "fst (turista_login example_library ''k'' 1000 ''c@x.com'' ''secret1'' example_database)
     = inactive_account \<and>
   fst (admin_login example_library ''k'' 1000 ''d@x.com'' ''secret1'' example_database)
     = inactive_account \<and>
   fst (admin_login example_library ''k'' 1000 ''d@x.com'' ''secret1''
          (example_database\<lparr>negocios := [\<lparr>ne_id = 5, ne_nombre = ''Cafe''\<rparr>]\<rparr>))
     = invalid_credentials \<and>
   fst (super_admin_login example_library ''k'' 1000 ''former'' ''secret1'' example_database)
     = invalid_credentials"
proof -
  let ?gone = "example_database\<lparr>negocios := [\<lparr>ne_id = 5, ne_nombre = ''Cafe''\<rparr>]\<rparr>"
  have t: "\<exists>u \<in> set (turistas example_database).
      sql_eq example_database (tu_email u) ''c@x.com''"
    "\<forall>u \<in> set (turistas example_database).
      sql_eq example_database (tu_email u) ''c@x.com'' \<longrightarrow> tu_estado u \<noteq> ''activo''"
    by (simp_all add: example_database_def)
  have a: "\<exists>an \<in> set (administradores_negocios example_database).
      sql_eq example_database (an_email an) ''d@x.com''
      \<and> (\<exists>n \<in> set (negocios example_database). an_negocio_id an = ne_id n)"
    "\<forall>an \<in> set (administradores_negocios example_database).
      sql_eq example_database (an_email an) ''d@x.com'' \<longrightarrow> an_estado an \<noteq> ''activo''"
    by (simp_all add: example_database_def)
  have g: "\<not> rejects 0 ?gone"
    "\<forall>an \<in> set (administradores_negocios ?gone).
      sql_eq ?gone (an_email an) ''d@x.com'' \<longrightarrow>
      \<not> (\<exists>n \<in> set (negocios ?gone). an_negocio_id an = ne_id n)"
    by (simp_all add: example_database_def rejects_def)
  have s: "\<forall>u \<in> set (super_administradores example_database).
      sql_eq example_database (sa_usuario u) ''former''
        \<longrightarrow> \<not> sql_eq example_database (sa_estado u) ''activo''"
    by (simp add: example_database_def)
  note i = inactive_login_fails
    [where lib = example_library and secret = "''k''" and now = 1000
       and password = "''secret1''"]
  have 1: "fst (turista_login example_library ''k'' 1000 ''c@x.com'' ''secret1''
      example_database) = inactive_account"
    using i [where db = example_database and email = "''c@x.com''"]
      t example_accepts [of 0] by blast
  have 2: "fst (admin_login example_library ''k'' 1000 ''d@x.com'' ''secret1''
      example_database) = inactive_account"
    using i [where db = example_database and email = "''d@x.com''"]
      a example_accepts [of 0] by blast
  have 3: "fst (admin_login example_library ''k'' 1000 ''d@x.com'' ''secret1'' ?gone)
      = invalid_credentials"
    using i [where db = ?gone and email = "''d@x.com''"] g by blast
  have 4: "fst (super_admin_login example_library ''k'' 1000 ''former'' ''secret1''
      example_database) = invalid_credentials"
    using i [where db = example_database and usuario = "''former''"]
      s example_accepts [of 0] by blast
  from 1 2 3 4 show ?thesis by simp
qed

lemma rejects_2: "rejects (Suc (Suc 0)) db = rejects 0 (advance (advance db))"
  by (simp add: rejects_Suc)



lemma execute_second:
  "rejects (Suc 0) db \<Longrightarrow> pool_execute statement (advance db) = (Inl StoreFault, advance (advance db))"
  "\<not> rejects (Suc 0) db \<Longrightarrow> pool_execute statement (advance db)
     = (Inr (fst (statement (advance (advance db)))), snd (statement (advance (advance db))))"
  by (simp_all add: rejects_Suc pool_execute_accepts pool_execute_rejects)

lemma login_last_seen_update:
  "\<not> rejects 0 db \<Longrightarrow> fst (select_turistas_by_email email db) = tu # tus
     \<Longrightarrow> tu_estado tu = ''activo'' \<Longrightarrow> bcrypt_compare lib password (tu_password_hash tu) \<Longrightarrow>
   fst (turista_login lib secret now email password db) =
     (if rejects (Suc 0) db then internal_error
      else json_with_data 200 msg_login_exitoso
             (DataLogin
                (jwt_sign lib
                   [(''id'', js_number (tu_id tu)), (''email'', JStr (tu_email tu)),
                    (''tipo'', JStr ''turista'')] secret ''24h'' now)
                [(''id'', js_number (tu_id tu)), (''nombre'', JStr (tu_nombre tu)),
                 (''apellido'', JStr (tu_apellido tu)), (''email'', JStr (tu_email tu))]))"
  "\<not> rejects 0 db \<Longrightarrow> fst (select_admins_by_email email db) = (an, n) # ans
     \<Longrightarrow> an_estado an = ''activo'' \<Longrightarrow> bcrypt_compare lib password (an_password_hash an) \<Longrightarrow>
   fst (admin_login lib secret now email password db) =
     (if rejects (Suc 0) db then internal_error
      else json_with_data 200 msg_login_exitoso
             (DataLogin
                (jwt_sign lib
                   [(''id'', js_number (an_id an)), (''email'', JStr (an_email an)),
                    (''negocio_id'', js_number (an_negocio_id an)),
                    (''tipo'', JStr ''admin_negocio'')] secret ''24h'' now)
                [(''id'', js_number (an_id an)), (''nombre'', JStr (an_nombre an)),
                 (''apellido'', JStr (an_apellido an)), (''email'', JStr (an_email an)),
                 (''negocio_id'', js_number (an_negocio_id an)),
                 (''nombre_negocio'', JStr (ne_nombre n)),
                 (''permisos'', an_permisos an)]))"
  "\<not> rejects 0 db \<Longrightarrow> fst (select_supers_by_usuario usuario db) = sa # sas
     \<Longrightarrow> bcrypt_compare lib password (sa_password_hash sa) \<Longrightarrow>
   fst (super_admin_login lib secret now usuario password db) =
     (if rejects (Suc 0) db then internal_error
      else json_with_data 200 msg_login_exitoso
             (DataLogin
                (jwt_sign lib
                   [(''id'', js_number (sa_id sa)), (''usuario'', JStr (sa_usuario sa)),
                    (''tipo'', JStr ''super_admin''),
                    (''nivel_acceso'', sa_nivel_acceso sa)] secret ''24h'' now)
                [(''id'', js_number (sa_id sa)), (''usuario'', JStr (sa_usuario sa)),
                 (''nombre'', JStr (sa_nombre sa)), (''email'', JStr (sa_email sa)),
                 (''nivel_acceso'', sa_nivel_acceso sa),
                 (''permisos'', sa_permisos sa)]))"
  by (auto simp: turista_login_found admin_login_found super_admin_login_found
      execute_second)

text \<open>
  C5, as stated, fails: in the example store with a schedule where the lookup succeeds and
  the next call, the update of \<open>ultima_conexion\<close>, rejects, the active tourist logging
  in with the right password gets the response 500 and no token.
\<close>

theorem last_seen_failure_counterexample:
  "tu_estado (hd (turistas example_database)) = ''activo'' \<and>
   bcrypt_compare example_library ''secret1''
     (tu_password_hash (hd (turistas example_database))) \<and>
   rejects (Suc 0) (example_database\<lparr>faults := [False, True]\<rparr>) \<and>
   fst (turista_login example_library ''k'' 1000 ''a@x.com'' ''secret1''
          (example_database\<lparr>faults := [False, True]\<rparr>)) = internal_error \<and>
   http_status internal_error = 500 \<and> payload internal_error = NoData"
  by (simp add: turista_login_def pool_execute_def select_turistas_by_email_def rejects_def
      example_database_def example_library_def internal_error_def json_message_def)

text \<open>
  C5, amended. The handlers await the update of the last-seen timestamp inside the same
  \<open>try\<close> as the rest of the login. For valid credentials of an active principal, on
  each of the three routes: when the update rejects, the answer is 500 "Error interno del
  servidor" and carries no token; when it succeeds, the answer is the success result with
  the token \<open>jwt.sign\<close> issued.
\<close>

theorem login_awaits_last_seen_update:
  "(\<not> rejects 0 db \<and> fst (select_turistas_by_email email db) = tu # tus
      \<and> tu_estado tu = ''activo'' \<and> bcrypt_compare lib password (tu_password_hash tu) \<longrightarrow>
      (rejects (Suc 0) db \<longrightarrow>
         fst (turista_login lib secret now email password db) = internal_error) \<and>
      (\<not> rejects (Suc 0) db \<longrightarrow>
         fst (turista_login lib secret now email password db) =
           json_with_data 200 msg_login_exitoso
             (DataLogin
                (jwt_sign lib
                   [(''id'', js_number (tu_id tu)), (''email'', JStr (tu_email tu)),
                    (''tipo'', JStr ''turista'')] secret ''24h'' now)
                [(''id'', js_number (tu_id tu)), (''nombre'', JStr (tu_nombre tu)),
                 (''apellido'', JStr (tu_apellido tu)), (''email'', JStr (tu_email tu))]))) \<and>
   (\<not> rejects 0 db \<and> fst (select_admins_by_email email db) = (an, n) # ans
      \<and> an_estado an = ''activo'' \<and> bcrypt_compare lib password (an_password_hash an) \<longrightarrow>
      (rejects (Suc 0) db \<longrightarrow>
         fst (admin_login lib secret now email password db) = internal_error) \<and>
      (\<not> rejects (Suc 0) db \<longrightarrow>
         fst (admin_login lib secret now email password db) =
           json_with_data 200 msg_login_exitoso
             (DataLogin
                (jwt_sign lib
                   [(''id'', js_number (an_id an)), (''email'', JStr (an_email an)),
                    (''negocio_id'', js_number (an_negocio_id an)),
                    (''tipo'', JStr ''admin_negocio'')] secret ''24h'' now)
                [(''id'', js_number (an_id an)), (''nombre'', JStr (an_nombre an)),
                 (''apellido'', JStr (an_apellido an)), (''email'', JStr (an_email an)),
                 (''negocio_id'', js_number (an_negocio_id an)),
                 (''nombre_negocio'', JStr (ne_nombre n)),
                 (''permisos'', an_permisos an)]))) \<and>
   (\<not> rejects 0 db \<and> fst (select_supers_by_usuario usuario db) = sa # sas
      \<and> bcrypt_compare lib password (sa_password_hash sa) \<longrightarrow>
      (rejects (Suc 0) db \<longrightarrow>
         fst (super_admin_login lib secret now usuario password db) = internal_error) \<and>
      (\<not> rejects (Suc 0) db \<longrightarrow>
         fst (super_admin_login lib secret now usuario password db) =
           json_with_data 200 msg_login_exitoso
             (DataLogin
                (jwt_sign lib
                   [(''id'', js_number (sa_id sa)), (''usuario'', JStr (sa_usuario sa)),
                    (''tipo'', JStr ''super_admin''),
                    (''nivel_acceso'', sa_nivel_acceso sa)] secret ''24h'' now)
                [(''id'', js_number (sa_id sa)), (''usuario'', JStr (sa_usuario sa)),
                 (''nombre'', JStr (sa_nombre sa)), (''email'', JStr (sa_email sa)),
                 (''nivel_acceso'', sa_nivel_acceso sa),
                 (''permisos'', sa_permisos sa)]))) \<and>
   http_status internal_error = 500 \<and> payload internal_error = NoData"
proof -
  have "http_status internal_error = 500" "payload internal_error = NoData"
    by (simp_all add: internal_error_def json_message_def)
  then show ?thesis
    by (simp add: login_last_seen_update)
qed

theorem login_awaits_last_seen_update_witness:
  "fst (turista_login example_library ''k'' 1000 ''a@x.com'' ''secret1''
          (example_database\<lparr>faults := [False, True]\<rparr>)) = internal_error \<and>
   fst (turista_login example_library ''k'' 1000 ''a@x.com'' ''secret1'' example_database) =
     json_with_data 200 msg_login_exitoso
       (DataLogin ''turista-signed''
          [(''id'', js_number 1), (''nombre'', JStr ''Ana''),
           (''apellido'', JStr ''Ruiz''), (''email'', JStr ''a@x.com'')])"
proof -
  let ?f = "example_database\<lparr>faults := [False, True]\<rparr>"
  have f: "\<not> rejects 0 ?f" "rejects (Suc 0) ?f"
    "fst (select_turistas_by_email ''a@x.com'' ?f) = [hd (turistas example_database)]"
    by (simp_all add: rejects_def select_turistas_by_email_def example_database_def)
  have 1: "fst (turista_login example_library ''k'' 1000 ''a@x.com'' ''secret1'' ?f)
      = internal_error"
    using login_awaits_last_seen_update
      [where db = ?f and email = "''a@x.com''" and tu = "hd (turistas example_database)"
         and tus = "[]" and lib = example_library and password = "''secret1''"
         and secret = "''k''" and now = 1000]
      f example_rows example_compare by simp
  have r: "tu_id (hd (turistas example_database)) = 1"
    "tu_nombre (hd (turistas example_database)) = ''Ana''"
    "tu_apellido (hd (turistas example_database)) = ''Ruiz''"
    "tu_email (hd (turistas example_database)) = ''a@x.com''"
    by (simp_all add: example_database_def)
  have s: "jwt_sign example_library
      [(''id'', js_number 1), (''email'', JStr ''a@x.com''), (''tipo'', JStr ''turista'')]
      ''k'' ''24h'' 1000 = ''turista-signed''"
    by (simp add: example_library_def js_prop_def)
  have 2: "fst (turista_login example_library ''k'' 1000 ''a@x.com'' ''secret1''
      example_database) =
     json_with_data 200 msg_login_exitoso
       (DataLogin ''turista-signed''
          [(''id'', js_number 1), (''nombre'', JStr ''Ana''),
           (''apellido'', JStr ''Ruiz''), (''email'', JStr ''a@x.com'')])"
    using login_awaits_last_seen_update
      [where db = example_database and email = "''a@x.com''"
         and tu = "hd (turistas example_database)"
         and tus = "[]" and lib = example_library and password = "''secret1''"
         and secret = "''k''" and now = 1000]
      example_accepts [of 0] example_accepts [of "Suc 0"] example_select_turistas
      example_rows example_compare r s by simp
  from 1 2 show ?thesis by simp
qed

lemma select_turistas_nonempty:
  "fst (select_turistas_by_email email db) \<noteq> []
     \<longleftrightarrow> (\<exists>u \<in> set (turistas db). sql_eq db (tu_email u) email)"
  by (simp add: select_turistas_by_email_def filter_empty_conv)

lemma turista_register_duplicate:
  assumes "\<not> rejects 0 db" and "fst (select_turistas_by_email (rg_email body) db) \<noteq> []"
  shows "turista_register lib salt body db = (duplicate_identifier, advance db)"
  using assms
  by (simp add: turista_register_def pool_execute_accepts select_turistas_advance)

lemma pool_execute_bound_rejects:
  "rejects 0 db \<Longrightarrow> pool_execute_bound params statement db = (Inl StoreFault, advance db)"
  by (cases "faults db") (auto simp: pool_execute_bound_def rejects_def advance_def)

lemma pool_execute_bound_refused:
  assumes "\<not> rejects 0 db" and "FieldUndefined \<in> set params"
  shows "pool_execute_bound params statement db = (Inl BindParameterUndefined, advance db)"
proof (cases "faults db")
  case Nil
  then have "advance db = db" by (rule advance_faults_Nil)
  with Nil assms(2) show ?thesis by (simp add: pool_execute_bound_def)
next
  case (Cons f fs)
  with assms show ?thesis
    by (auto simp: pool_execute_bound_def rejects_def advance_def)
qed

lemma pool_execute_bound_accepts:
  assumes "\<not> rejects 0 db" and "FieldUndefined \<notin> set params"
  shows "pool_execute_bound params statement db
           = (Inr (fst (statement (advance db))), snd (statement (advance db)))"
proof (cases "faults db")
  case Nil
  then have "advance db = db" by (rule advance_faults_Nil)
  with Nil assms(2) show ?thesis
    by (simp add: pool_execute_bound_def split: prod.splits)
next
  case (Cons f fs)
  with assms show ?thesis
    by (auto simp: pool_execute_bound_def rejects_def advance_def split: prod.splits)
qed

lemma turista_register_created:
  assumes "\<not> rejects 0 db" and "\<not> rejects (Suc 0) db"
    and "fst (select_turistas_by_email (rg_email body) db) = []"
    and "rg_telefono body \<noteq> FieldUndefined" and "rg_pais_origen body \<noteq> FieldUndefined"
    and "rg_ciudad_origen body \<noteq> FieldUndefined"
  shows "turista_register lib salt body db =
     (json_with_data 201 msg_turista_registrado (DataId (turistas_auto_increment db)),
      snd (insert_turista (rg_nombre body) (rg_apellido body) (rg_email body)
             (bcrypt_hash lib (rg_password body) 10 salt) (sql_value (rg_telefono body))
             (sql_value (rg_pais_origen body)) (sql_value (rg_ciudad_origen body))
             (advance (advance db))))"
proof -
  have i: "fst (insert_turista a b c d e f g (advance (advance db)))
      = turistas_auto_increment db" for a b c d e f g
    by (simp add: insert_turista_def advance_def Let_def)
  have r: "\<not> rejects 0 (advance db)" using assms(2) by (simp add: rejects_Suc)
  have u: "FieldUndefined \<notin> set [FieldString (rg_nombre body), FieldString (rg_apellido body),
      FieldString (rg_email body), FieldString (bcrypt_hash lib (rg_password body) 10 salt),
      rg_telefono body, rg_pais_origen body, rg_ciudad_origen body]"
    using assms(4-6) by auto
  show ?thesis
    using assms(1,3)
    by (simp add: turista_register_def pool_execute_accepts select_turistas_advance
        pool_execute_bound_accepts [OF r u] i del: set_simps)
qed

lemma turista_register_refused:
  assumes "\<not> rejects 0 db" and "\<not> rejects (Suc 0) db"
    and "fst (select_turistas_by_email (rg_email body) db) = []"
    and "rg_telefono body = FieldUndefined \<or> rg_pais_origen body = FieldUndefined
         \<or> rg_ciudad_origen body = FieldUndefined"
  shows "turista_register lib salt body db = (internal_error, advance (advance db))"
proof -
  have r: "\<not> rejects 0 (advance db)" using assms(2) by (simp add: rejects_Suc)
  have u: "FieldUndefined \<in> set [FieldString (rg_nombre body), FieldString (rg_apellido body),
      FieldString (rg_email body), FieldString (bcrypt_hash lib (rg_password body) 10 salt),
      rg_telefono body, rg_pais_origen body, rg_ciudad_origen body]"
    using assms(4) by auto
  show ?thesis
    using assms(1,3)
    by (simp add: turista_register_def pool_execute_accepts select_turistas_advance
        pool_execute_bound_refused [OF r u] del: set_simps)
qed

lemma insert_turista_table:
  "turistas (snd (insert_turista nombre apellido email h telefono pais ciudad
      (advance (advance db)))) =
     turistas db @
       [\<lparr>tu_id = turistas_auto_increment db, tu_nombre = nombre, tu_apellido = apellido,
         tu_email = email, tu_password_hash = h, tu_estado = ''activo'',
         tu_telefono = telefono, tu_pais_origen = pais, tu_ciudad_origen = ciudad,
         tu_ultima_conexion = None\<rparr>]"
  by (simp add: insert_turista_def advance_def Let_def turistas_estado_default_def)

lemma advance_frame:
  "turistas (advance db) = turistas db"
  "turistas_auto_increment (advance db) = turistas_auto_increment db"
  "sql_eq (advance db) = sql_eq db"
  by (simp_all add: advance_def)

text \<open>
  What the registration does, case by case: a duplicate email is refused and the table
  stays as it was; a new email with the three optional fields present (as strings or as
  \<open>null\<close>) is inserted with the hash of the password, the status \<open>activo\<close> and the
  generated id; a new email with one of the optional fields left out is answered 500, and
  the table stays as it was.
\<close>

lemma turista_register_outcomes:
  "(\<not> rejects 0 db \<and> (\<exists>u \<in> set (turistas db). sql_eq db (tu_email u) (rg_email body)) \<longrightarrow>
      fst (turista_register lib salt body db) = duplicate_identifier \<and>
      turistas (snd (turista_register lib salt body db)) = turistas db) \<and>
   (\<not> rejects 0 db \<and> \<not> rejects (Suc 0) db
      \<and> \<not> (\<exists>u \<in> set (turistas db). sql_eq db (tu_email u) (rg_email body))
      \<and> rg_telefono body \<noteq> FieldUndefined \<and> rg_pais_origen body \<noteq> FieldUndefined
      \<and> rg_ciudad_origen body \<noteq> FieldUndefined \<longrightarrow>
      fst (turista_register lib salt body db) =
        json_with_data 201 msg_turista_registrado (DataId (turistas_auto_increment db)) \<and>
      turistas (snd (turista_register lib salt body db)) =
        turistas db @
          [\<lparr>tu_id = turistas_auto_increment db, tu_nombre = rg_nombre body,
            tu_apellido = rg_apellido body, tu_email = rg_email body,
            tu_password_hash = bcrypt_hash lib (rg_password body) 10 salt,
            tu_estado = ''activo'', tu_telefono = sql_value (rg_telefono body),
            tu_pais_origen = sql_value (rg_pais_origen body),
            tu_ciudad_origen = sql_value (rg_ciudad_origen body),
            tu_ultima_conexion = None\<rparr>]) \<and>
   (\<not> rejects 0 db \<and> \<not> rejects (Suc 0) db
      \<and> \<not> (\<exists>u \<in> set (turistas db). sql_eq db (tu_email u) (rg_email body))
      \<and> (rg_telefono body = FieldUndefined \<or> rg_pais_origen body = FieldUndefined
           \<or> rg_ciudad_origen body = FieldUndefined) \<longrightarrow>
      fst (turista_register lib salt body db) = internal_error \<and>
      turistas (snd (turista_register lib salt body db)) = turistas db)"
proof (intro conjI impI)
  assume a: "\<not> rejects 0 db
    \<and> (\<exists>u \<in> set (turistas db). sql_eq db (tu_email u) (rg_email body))"
  then have r: "turista_register lib salt body db = (duplicate_identifier, advance db)"
    by (simp add: turista_register_duplicate select_turistas_nonempty)
  show "fst (turista_register lib salt body db) = duplicate_identifier"
    by (simp add: r)
  show "turistas (snd (turista_register lib salt body db)) = turistas db"
    by (simp add: r advance_frame)
next
  assume a: "\<not> rejects 0 db \<and> \<not> rejects (Suc 0) db
      \<and> \<not> (\<exists>u \<in> set (turistas db). sql_eq db (tu_email u) (rg_email body))
      \<and> rg_telefono body \<noteq> FieldUndefined \<and> rg_pais_origen body \<noteq> FieldUndefined
      \<and> rg_ciudad_origen body \<noteq> FieldUndefined"
  then have e: "fst (select_turistas_by_email (rg_email body) db) = []"
    using select_turistas_nonempty [of "rg_email body" db] by blast
  note r = turista_register_created [of db body lib salt]
  show "fst (turista_register lib salt body db) =
        json_with_data 201 msg_turista_registrado (DataId (turistas_auto_increment db))"
    using a e by (simp add: r)
  show "turistas (snd (turista_register lib salt body db)) =
        turistas db @
          [\<lparr>tu_id = turistas_auto_increment db, tu_nombre = rg_nombre body,
            tu_apellido = rg_apellido body, tu_email = rg_email body,
            tu_password_hash = bcrypt_hash lib (rg_password body) 10 salt,
            tu_estado = ''activo'', tu_telefono = sql_value (rg_telefono body),
            tu_pais_origen = sql_value (rg_pais_origen body),
            tu_ciudad_origen = sql_value (rg_ciudad_origen body),
            tu_ultima_conexion = None\<rparr>]"
    using a e by (simp add: r insert_turista_table)
next
  assume a: "\<not> rejects 0 db \<and> \<not> rejects (Suc 0) db
      \<and> \<not> (\<exists>u \<in> set (turistas db). sql_eq db (tu_email u) (rg_email body))
      \<and> (rg_telefono body = FieldUndefined \<or> rg_pais_origen body = FieldUndefined
           \<or> rg_ciudad_origen body = FieldUndefined)"
  then have e: "fst (select_turistas_by_email (rg_email body) db) = []"
    using select_turistas_nonempty [of "rg_email body" db] by blast
  have r: "turista_register lib salt body db = (internal_error, advance (advance db))"
    using a e by (intro turista_register_refused) simp_all
  show "fst (turista_register lib salt body db) = internal_error"
    by (simp add: r)
  show "turistas (snd (turista_register lib salt body db)) = turistas db"
    by (simp add: r advance_frame)
qed

text \<open>
  C8. The claim says that a registration whose email is not yet in the store hashes the
  secret, inserts the new principal with the status active and returns the generated id.
  The code does not do that for a registration that leaves the optional fields out: in the
  example store, which has no tourist of the email \<open>n@x.com\<close>, the request with
  \<open>nombre\<close>, \<open>apellido\<close>, \<open>email\<close> and \<open>password\<close> only hands three
  \<open>undefined\<close> bind parameters to the \<open>INSERT\<close>, the driver throws, and the handler
  answers 500 "Error interno del servidor" with the store as it was. The same request with
  the three fields sent as \<open>null\<close> is answered 201 with the generated id 3.
\<close>

theorem register_without_optional_fields:
  "fst (select_turistas_by_email ''n@x.com'' example_database) = [] \<and>
   turista_register example_library ''pepper''
     \<lparr>rg_nombre = ''Nora'', rg_apellido = ''Vega'', rg_email = ''n@x.com'',
      rg_password = ''secret1'', rg_telefono = FieldUndefined,
      rg_pais_origen = FieldUndefined, rg_ciudad_origen = FieldUndefined\<rparr>
     example_database = (internal_error, example_database) \<and>
   http_status internal_error = 500 \<and>
   payload internal_error = NoData \<and>
   fst (turista_register example_library ''pepper''
     \<lparr>rg_nombre = ''Nora'', rg_apellido = ''Vega'', rg_email = ''n@x.com'',
      rg_password = ''secret1'', rg_telefono = FieldNull,
      rg_pais_origen = FieldNull, rg_ciudad_origen = FieldNull\<rparr>
     example_database) = json_with_data 201 msg_turista_registrado (DataId 3)"
proof -
  let ?out = "\<lparr>rg_nombre = ''Nora'', rg_apellido = ''Vega'', rg_email = ''n@x.com'',
      rg_password = ''secret1'', rg_telefono = FieldUndefined,
      rg_pais_origen = FieldUndefined, rg_ciudad_origen = FieldUndefined\<rparr>"
  let ?null = "\<lparr>rg_nombre = ''Nora'', rg_apellido = ''Vega'', rg_email = ''n@x.com'',
      rg_password = ''secret1'', rg_telefono = FieldNull,
      rg_pais_origen = FieldNull, rg_ciudad_origen = FieldNull\<rparr>"
  have e: "fst (select_turistas_by_email ''n@x.com'' example_database) = []"
    by (simp add: select_turistas_by_email_def example_database_def)
  have f: "faults example_database = []" by (simp add: example_database_def)
  have d: "advance (advance example_database) = example_database"
    by (simp add: advance_faults_Nil f)
  have 1: "turista_register example_library ''pepper'' ?out example_database
      = (internal_error, example_database)"
    using turista_register_refused [of example_database ?out example_library "''pepper''"]
      example_accepts [of 0] example_accepts [of "Suc 0"] e d by simp
  have 2: "fst (turista_register example_library ''pepper'' ?null example_database)
      = json_with_data 201 msg_turista_registrado (DataId 3)"
    using turista_register_created [of example_database ?null example_library "''pepper''"]
      example_accepts [of 0] example_accepts [of "Suc 0"] e
    by (simp add: example_database_def)
  have 3: "http_status internal_error = 500" "payload internal_error = NoData"
    by (simp_all add: internal_error_def json_message_def)
  from e 1 2 3 show ?thesis by simp
qed

section \<open>Properties of the ownership check\<close>

subsection \<open>The number a decimal numeral denotes\<close>

lemma is_digit_char_of: "(d::nat) < 10 \<Longrightarrow> is_digit (char_of (48 + d))"
  by (simp add: is_digit_def)

lemma digit_value_char_of: "(d::nat) < 10 \<Longrightarrow> digit_value (char_of (48 + d)) = d"
  by (simp add: digit_value_def is_digit_def)

lemma decimal_all_digits: "list_all is_digit (decimal n)"
proof (induction n rule: decimal.induct)
  case (1 n)
  show ?case
  proof (cases "n < 10")
    case True
    then show ?thesis by (simp add: decimal.simps [of n] is_digit_char_of)
  next
    case False
    have "n mod 10 < 10" by simp
    then have "is_digit (char_of (48 + n mod 10))" by (rule is_digit_char_of)
    with False 1 show ?thesis by (simp add: decimal.simps [of n])
  qed
qed

lemma decimal_not_Nil: "decimal n \<noteq> []"
  by (simp add: decimal.simps [of n])

lemma digits_value_snoc:
  "digits_value b (ds @ [c]) = digits_value b ds * b + digit_value c"
  by (simp add: digits_value_def)

lemma digits_value_decimal: "digits_value 10 (decimal n) = n"
proof (induction n rule: decimal.induct)
  case (1 n)
  show ?case
  proof (cases "n < 10")
    case True
    then show ?thesis
      by (simp add: decimal.simps [of n] digits_value_def digit_value_char_of)
  next
    case False
    have "digit_value (char_of (48 + n mod 10)) = n mod 10"
      by (rule digit_value_char_of) simp
    with False 1 show ?thesis
      by (simp add: decimal.simps [of n] digits_value_snoc)
  qed
qed

lemma digit_not_white_space: "is_digit c \<Longrightarrow> \<not> is_white_space c"
  by (auto simp: is_digit_def is_white_space_def)

lemma dropWhile_none: "\<forall>c \<in> set s. \<not> P c \<Longrightarrow> dropWhile P s = s"
  by (cases s) auto

lemma trim_digits: "list_all is_digit s \<Longrightarrow> trim s = s"
  by (simp add: trim_def dropWhile_none list_all_iff digit_not_white_space)

lemma digits_not_infinity:
  assumes "list_all is_digit s"
  shows "s \<noteq> ''Infinity''" "s \<noteq> ''+Infinity''" "s \<noteq> ''-Infinity''"
  using assms by (auto simp: is_digit_def)

lemma digits_not_non_decimal:
  assumes "list_all is_digit s"
  shows "non_decimal_integer s = None"
proof (cases s)
  case Nil
  then show ?thesis by (simp add: non_decimal_integer_def)
next
  case (Cons z r)
  show ?thesis
  proof (cases r)
    case Nil
    with Cons show ?thesis by (simp add: non_decimal_integer_def)
  next
    case (Cons x ds)
    with assms \<open>s = z # r\<close> have "is_digit x" by simp
    then have "x \<noteq> CHR ''x''" "x \<noteq> CHR ''X''" "x \<noteq> CHR ''o''" "x \<noteq> CHR ''O''"
      "x \<noteq> CHR ''b''" "x \<noteq> CHR ''B''"
      by (auto simp: is_digit_def)
    with Cons \<open>s = z # r\<close> show ?thesis by (simp add: non_decimal_integer_def)
  qed
qed

lemma digits_no_sign:
  assumes "list_all is_digit s" and "s \<noteq> []"
  shows "hd s \<noteq> CHR ''+''" "hd s \<noteq> CHR ''-''"
  using assms by (cases s; auto simp: is_digit_def)+

lemma str_unsigned_decimal_digits:
  assumes "list_all is_digit s" and "s \<noteq> []"
  shows "str_unsigned_decimal s = Some (digits_value 10 s, 1)"
proof -
  from assms(1) have t: "takeWhile is_digit s = s" and d: "dropWhile is_digit s = []"
    by (simp_all add: list_all_iff)
  show ?thesis
    unfolding str_unsigned_decimal_def Let_def t d
    using assms(2) by (simp add: exponent_part_def)
qed

lemma bit_length_bound: "n < 2 ^ k \<Longrightarrow> bit_length n \<le> k"
proof (induction k arbitrary: n)
  case 0
  then have "n = 0" by simp
  then show ?case by (simp add: bit_length.simps [of 0])
next
  case (Suc k)
  then have "n div 2 < 2 ^ k" by simp
  then have "bit_length (n div 2) \<le> k" by (rule Suc.IH)
  then show ?case by (subst bit_length.simps) simp
qed

lemma round_half_even_one: "round_half_even a (Suc 0) = a"
  by (simp add: round_half_even_def)

lemma floor_log2_bound:
  assumes "m < 2 ^ 53"
  shows "floor_log2 m (Suc 0) \<le> 52"
proof -
  have "bit_length m \<le> 53" using assms by (rule bit_length_bound)
  moreover have "bit_length (Suc 0) = Suc 0"
    by (simp add: bit_length.simps [of "Suc 0"] bit_length.simps [of 0])
  ultimately show ?thesis by (simp add: floor_log2_def Let_def)
qed

lemma round_double_safe_integer:
  assumes "m < 2 ^ 53"
  shows "round_double m (Suc 0) = Some (of_nat m)"
proof (cases "m = 0")
  case True
  then show ?thesis by (simp add: round_double_def)
next
  case False
  define k where "k = max (floor_log2 m (Suc 0)) (- 1022) - 52"
  have k: "k \<le> 0" using floor_log2_bound [OF assms] by (simp add: k_def)
  have v: "(if 0 \<le> k
            then of_nat (round_half_even m (Suc 0 * 2 ^ nat k) * 2 ^ nat k)
            else of_nat (round_half_even (m * 2 ^ nat (- k)) (Suc 0)) / of_nat (2 ^ nat (- k)))
           = (of_nat m :: rat)"
  proof (cases "0 \<le> k")
    case True
    with k have "k = 0" by simp
    then show ?thesis by (simp add: round_half_even_one)
  next
    case False
    then show ?thesis by (simp add: round_half_even_one)
  qed
  have "(of_nat m :: rat) < of_nat (2 ^ 53)" using assms by (simp only: of_nat_less_iff)
  also have "(of_nat (2 ^ 53) :: rat) = 2 ^ 53" by simp
  also have "(2::rat) ^ 53 \<le> 2 ^ 1024" by (rule power_increasing) simp_all
  finally have b: "\<not> (2::rat) ^ 1024 \<le> of_nat m" by simp
  from False v b show ?thesis
    unfolding round_double_def Let_def k_def [symmetric] by simp
qed

lemma string_to_number_decimal:
  assumes "m < 2 ^ 53"
  shows "string_to_number (decimal m) = Finite (of_nat m)"
proof -
  note d = decimal_all_digits [of m] decimal_not_Nil [of m]
  have "str_decimal False (decimal m) = Finite (of_nat m)"
    using d assms
    by (simp add: str_decimal_def str_unsigned_decimal_digits digits_value_decimal
        number_value_def round_double_safe_integer)
  then show ?thesis
    using d
    by (simp add: string_to_number_def Let_def trim_digits digits_not_infinity
        digits_not_non_decimal digits_no_sign)
qed

lemma loose_eq_decimal:
  assumes "m < 2 ^ 53"
  shows "loose_eq (js_number n) (JStr (decimal m)) \<longleftrightarrow> n = m"
  using assms by (simp add: js_number_def string_to_number_decimal num_eq_def)

subsection \<open>The check\<close>

lemma strict_eq_string: "strict_eq v (JStr s) \<longleftrightarrow> v = JStr s"
  by (cases v) (simp_all add: strict_eq_def)

lemma responses_not_forbidden_ownership:
  "internal_error \<noteq> forbidden_ownership"
  "json_message 200 True msg_negocio_actualizado \<noteq> forbidden_ownership"
  by (simp_all add: internal_error_def forbidden_ownership_def json_message_def)

lemma put_negocio_admin:
  assumes "js_prop user ''tipo'' = JStr ''admin_negocio''"
  shows "put_negocio user negocioId upd db =
     (if \<not> loose_eq (js_prop user ''negocio_id'') (JStr negocioId)
      then (forbidden_ownership, db)
      else if rejects 0 db then (internal_error, advance db)
      else (json_message 200 True msg_negocio_actualizado, snd (upd negocioId (advance db))))"
  using assms
  by (simp add: put_negocio_def strict_eq_string pool_execute_accepts pool_execute_rejects)

lemma put_negocio_other:
  assumes "js_prop user ''tipo'' \<noteq> JStr ''admin_negocio''"
  shows "put_negocio user negocioId upd db =
     (if rejects 0 db then (internal_error, advance db)
      else (json_message 200 True msg_negocio_actualizado, snd (upd negocioId (advance db))))"
  using assms
  by (simp add: put_negocio_def strict_eq_string pool_execute_accepts pool_execute_rejects)

lemma route_put_negocio_admitted:
  assumes "token_of_header authorization = Some t" and "t \<noteq> []"
    and "jwt_verify lib t secret now = Inr user"
    and "js_prop user ''tipo'' = JStr ''admin_negocio''
         \<or> js_prop user ''tipo'' = JStr ''super_admin''"
  shows "route_put_negocio lib secret now authorization negocioId upd db
           = put_negocio user negocioId upd db"
  using assms by (auto simp: route_put_negocio_def verifyToken_def js_includes_def)

lemma example_decimal: "decimal 5 = ''5''" "decimal 6 = ''6''"
  by code_simp+

lemma example_verify_super:
  "jwt_verify example_library ''super-3'' ''k'' 2000 = Inr (example_claims ''super-3'')"
  by (simp add: example_library_def example_wire_def token_verify_def token_issue_def
      token_lifetime_def)

lemma example_header_super:
  "token_of_header (Some ''Bearer super-3'') = Some ''super-3''"
  by (simp add: token_of_header_def)

lemma example_claims_props:
  "js_prop (example_claims ''admin-5'') ''negocio_id'' = js_number 5"
  "js_prop (example_claims ''super-3'') ''tipo'' = JStr ''super_admin''"
  by (simp_all add: example_claims_def js_prop_def)

text \<open>
  C2. The ownership check of \<open>PUT /api/negocios/:id\<close>. A caller the guard admitted as
  \<open>admin_negocio\<close>, bound to the business \<open>n\<close>, who targets the business \<open>m\<close>
  (its decimal numeral in the path, \<open>m\<close> below \<open>2 ^ 53\<close>, where every integer is a
  number of the language) is refused with 403 "Sin permisos para este negocio" if and only
  if \<open>n\<close> and \<open>m\<close> differ; with \<open>n = m\<close> the update runs. A caller admitted as
  \<open>super_admin\<close> is never refused by the check: the update runs for any target.
\<close>

theorem ownership_check_decision:
  "(token_of_header authorization = Some t \<and> t \<noteq> []
      \<and> jwt_verify lib t secret now = Inr user
      \<and> js_prop user ''tipo'' = JStr ''admin_negocio''
      \<and> js_prop user ''negocio_id'' = js_number n \<and> m < 2 ^ 53 \<longrightarrow>
      (fst (route_put_negocio lib secret now authorization (decimal m) upd db)
         = forbidden_ownership \<longleftrightarrow> n \<noteq> m) \<and>
      (n = m \<and> \<not> rejects 0 db \<longrightarrow>
         route_put_negocio lib secret now authorization (decimal m) upd db
           = (json_message 200 True msg_negocio_actualizado,
              snd (upd (decimal m) (advance db)))) \<and>
      (n \<noteq> m \<longrightarrow>
         snd (route_put_negocio lib secret now authorization (decimal m) upd db) = db)) \<and>
   (token_of_header authorization = Some t \<and> t \<noteq> []
      \<and> jwt_verify lib t secret now = Inr user
      \<and> js_prop user ''tipo'' = JStr ''super_admin'' \<longrightarrow>
      fst (route_put_negocio lib secret now authorization negocioId upd db)
        \<noteq> forbidden_ownership \<and>
      (\<not> rejects 0 db \<longrightarrow>
         route_put_negocio lib secret now authorization negocioId upd db
           = (json_message 200 True msg_negocio_actualizado,
              snd (upd negocioId (advance db))))) \<and>
   http_status forbidden_ownership = 403"
proof (intro conjI impI)
  show "http_status forbidden_ownership = 403"
    by (simp add: forbidden_ownership_def json_message_def)
next
  assume a: "token_of_header authorization = Some t \<and> t \<noteq> []
      \<and> jwt_verify lib t secret now = Inr user
      \<and> js_prop user ''tipo'' = JStr ''admin_negocio''
      \<and> js_prop user ''negocio_id'' = js_number n \<and> m < 2 ^ 53"
  then have r: "route_put_negocio lib secret now authorization (decimal m) upd db
      = put_negocio user (decimal m) upd db"
    by (simp add: route_put_negocio_admitted)
  from a have l: "loose_eq (js_number n) (JStr (decimal m)) \<longleftrightarrow> n = m"
    by (simp add: loose_eq_decimal)
  from a have p: "put_negocio user (decimal m) upd db =
     (if n \<noteq> m then (forbidden_ownership, db)
      else if rejects 0 db then (internal_error, advance db)
      else (json_message 200 True msg_negocio_actualizado,
            snd (upd (decimal m) (advance db))))"
    by (simp add: put_negocio_admin l)
  show "fst (route_put_negocio lib secret now authorization (decimal m) upd db)
         = forbidden_ownership \<longleftrightarrow> n \<noteq> m"
    by (simp add: r p responses_not_forbidden_ownership)
  show "route_put_negocio lib secret now authorization (decimal m) upd db
           = (json_message 200 True msg_negocio_actualizado,
              snd (upd (decimal m) (advance db)))"
    if "n = m \<and> \<not> rejects 0 db"
    using that by (simp add: r p)
  show "snd (route_put_negocio lib secret now authorization (decimal m) upd db) = db"
    if "n \<noteq> m"
    using that by (simp add: r p)
next
  assume a: "token_of_header authorization = Some t \<and> t \<noteq> []
      \<and> jwt_verify lib t secret now = Inr user
      \<and> js_prop user ''tipo'' = JStr ''super_admin''"
  then have r: "route_put_negocio lib secret now authorization negocioId upd db
      = put_negocio user negocioId upd db"
    by (simp add: route_put_negocio_admitted)
  from a have p: "put_negocio user negocioId upd db =
     (if rejects 0 db then (internal_error, advance db)
      else (json_message 200 True msg_negocio_actualizado,
            snd (upd negocioId (advance db))))"
    by (simp add: put_negocio_other)
  show "fst (route_put_negocio lib secret now authorization negocioId upd db)
        \<noteq> forbidden_ownership"
    by (simp add: r p responses_not_forbidden_ownership)
  show "route_put_negocio lib secret now authorization negocioId upd db
           = (json_message 200 True msg_negocio_actualizado,
              snd (upd negocioId (advance db)))"
    if "\<not> rejects 0 db"
    using that by (simp add: r p)
qed

theorem ownership_check_decision_witness:
  "fst (route_put_negocio example_library ''k'' 2000 (Some ''Bearer admin-5'') ''5''
          (\<lambda>i db. ((), db)) example_database)
     = json_message 200 True msg_negocio_actualizado \<and>
   fst (route_put_negocio example_library ''k'' 2000 (Some ''Bearer admin-5'') ''6''
          (\<lambda>i db. ((), db)) example_database) = forbidden_ownership \<and>
   fst (route_put_negocio example_library ''k'' 2000 (Some ''Bearer super-3'') ''6''
          (\<lambda>i db. ((), db)) example_database)
     = json_message 200 True msg_negocio_actualizado"
proof -
  note t = ownership_check_decision
    [where lib = example_library and secret = "''k''" and now = 2000
       and upd = "\<lambda>i db. ((), db)" and db = example_database]
  note a = t [where authorization = "Some ''Bearer admin-5''" and t = "''admin-5''"
       and user = "example_claims ''admin-5''" and n = 5]
  note e = example_header_admin example_verify_admin example_tipo_admin
    example_claims_props example_accepts [of 0]
  have 1: "fst (route_put_negocio example_library ''k'' 2000 (Some ''Bearer admin-5'') ''5''
          (\<lambda>i db. ((), db)) example_database)
     = json_message 200 True msg_negocio_actualizado"
    using a [where m = 5] e by (simp add: example_decimal)
  have 2: "fst (route_put_negocio example_library ''k'' 2000 (Some ''Bearer admin-5'') ''6''
          (\<lambda>i db. ((), db)) example_database) = forbidden_ownership"
    using a [where m = 6] e by (simp add: example_decimal)
  have 3: "fst (route_put_negocio example_library ''k'' 2000 (Some ''Bearer super-3'') ''6''
          (\<lambda>i db. ((), db)) example_database)
     = json_message 200 True msg_negocio_actualizado"
    using t [where authorization = "Some ''Bearer super-3''" and t = "''super-3''"
       and user = "example_claims ''super-3''" and negocioId = "''6''"]
      example_header_super example_verify_super example_claims_props example_accepts [of 0]
    by simp
  from 1 2 3 show ?thesis by simp
qed

lemma example_trim:
  "trim ''5'' = ''5''" "trim ''6'' = ''6''" "trim ''5.0'' = ''5.0''" "trim '' 5'' = ''5''"
  "trim ''0x5'' = ''0x5''" "trim ''five'' = ''five''"
  by code_simp+

lemma example_non_decimal:
  "non_decimal_integer ''5'' = None" "non_decimal_integer ''6'' = None"
  "non_decimal_integer ''5.0'' = None" "non_decimal_integer ''0x5'' = Some 5"
  "non_decimal_integer ''five'' = None"
  by code_simp+

lemma example_unsigned:
  "str_unsigned_decimal ''5'' = Some (5, Suc 0)"
  "str_unsigned_decimal ''6'' = Some (6, Suc 0)"
  "str_unsigned_decimal ''5.0'' = Some (50, 10)"
  "str_unsigned_decimal ''five'' = None"
  by code_simp+

lemma example_bit_length: "bit_length 50 = 6" "bit_length 10 = 4"
  by (simp_all add: bit_length.simps [of 50] bit_length.simps [of 25]
      bit_length.simps [of 12] bit_length.simps [of 10] bit_length.simps [of 6]
      bit_length.simps [of 5] bit_length.simps [of 3] bit_length.simps [of 2]
      bit_length.simps [of "Suc 0"] bit_length.simps [of 0])

lemma example_round:
  "round_double 5 (Suc 0) = Some 5" "round_double 6 (Suc 0) = Some 6"
  "round_double 50 10 = Some 5"
proof -
  show "round_double 5 (Suc 0) = Some 5"
    using round_double_safe_integer [of 5] by simp
  show "round_double 6 (Suc 0) = Some 6"
    using round_double_safe_integer [of 6] by simp
  have "floor_log2 50 10 = 2"
    by (simp add: floor_log2_def example_bit_length)
  then show "round_double 50 10 = Some 5"
    by (simp add: round_double_def round_half_even_def)
qed

lemma example_numbers:
  "string_to_number ''5'' = Finite 5"
  "string_to_number ''6'' = Finite 6"
  "string_to_number ''5.0'' = Finite 5"
  "string_to_number '' 5'' = Finite 5"
  "string_to_number ''0x5'' = Finite 5"
  "string_to_number ''five'' = NaN"
  by (simp_all add: string_to_number_def str_decimal_def number_value_def example_trim
      example_non_decimal example_unsigned example_round)

text \<open>
  C10. The comparison of the ownership check is the loose inequality \<open>!=\<close> between the
  \<open>negocio_id\<close> of the token and the string of the path. For a caller of the role
  \<open>admin_negocio\<close> the check lets a path string pass if and only if it loosely equals
  the bound id: for a number, if and only if StringToNumber of the string is that number.
  So the string \<open>5\<close> passes against the number 5, which a strict comparison would
  refuse, and so do \<open>5.0\<close>, the string with a leading space and \<open>0x5\<close>.
\<close>

theorem ownership_check_loose:
  "(js_prop user ''tipo'' = JStr ''admin_negocio'' \<longrightarrow>
      (fst (put_negocio user negocioId upd db) \<noteq> forbidden_ownership
         \<longleftrightarrow> loose_eq (js_prop user ''negocio_id'') (JStr negocioId)) \<and>
      (js_prop user ''negocio_id'' = JNum x \<longrightarrow>
         (fst (put_negocio user negocioId upd db) \<noteq> forbidden_ownership
            \<longleftrightarrow> num_eq x (string_to_number negocioId)))) \<and>
   loose_eq (js_number 5) (JStr ''5'') \<and> \<not> strict_eq (js_number 5) (JStr ''5'') \<and>
   loose_eq (js_number 5) (JStr ''5.0'') \<and> loose_eq (js_number 5) (JStr '' 5'') \<and>
   loose_eq (js_number 5) (JStr ''0x5'') \<and> \<not> loose_eq (js_number 5) (JStr ''6'') \<and>
   \<not> loose_eq (js_number 5) (JStr ''five'')"
proof -
  have g: "fst (put_negocio user negocioId upd db) \<noteq> forbidden_ownership
         \<longleftrightarrow> loose_eq (js_prop user ''negocio_id'') (JStr negocioId)"
    if "js_prop user ''tipo'' = JStr ''admin_negocio''"
    using that by (simp add: put_negocio_admin responses_not_forbidden_ownership)
  have c: "loose_eq (js_number 5) (JStr ''5'')" "\<not> strict_eq (js_number 5) (JStr ''5'')"
    "loose_eq (js_number 5) (JStr ''5.0'')" "loose_eq (js_number 5) (JStr '' 5'')"
    "loose_eq (js_number 5) (JStr ''0x5'')" "\<not> loose_eq (js_number 5) (JStr ''6'')"
    "\<not> loose_eq (js_number 5) (JStr ''five'')"
    by (simp_all add: js_number_def example_numbers num_eq_def strict_eq_def)
  from g c show ?thesis by auto
qed

theorem ownership_check_loose_witness:
  "fst (put_negocio (example_claims ''admin-5'') ''5'' (\<lambda>i db. ((), db)) example_database)
     \<noteq> forbidden_ownership \<and>
   fst (put_negocio (example_claims ''admin-5'') '' 5'' (\<lambda>i db. ((), db)) example_database)
     \<noteq> forbidden_ownership \<and>
   fst (put_negocio (example_claims ''admin-5'') ''6'' (\<lambda>i db. ((), db)) example_database)
     = forbidden_ownership"
proof -
  note t = ownership_check_loose
    [where user = "example_claims ''admin-5''" and upd = "\<lambda>i db. ((), db)"
       and db = example_database and x = "Finite 5"]
  have n: "js_prop (example_claims ''admin-5'') ''negocio_id'' = JNum (Finite 5)"
    by (simp add: example_claims_def js_prop_def js_number_def)
  show ?thesis
    using t [where negocioId = "''5''"] t [where negocioId = "'' 5''"]
      t [where negocioId = "''6''"] n example_tipo_admin
    by (simp add: example_numbers num_eq_def)
qed

end
